theory Spec2Isabelle
  imports Complex_Main "HOL-Library.AList"
begin

section \<open>Python and NumPy values\<close>

text \<open>
  The primitives of \<^verbatim>\<open>trimesh/primitives.py\<close> keep their parameters in a key/value store
  and their derived geometry in a cache. Both hold NumPy arrays. An array element is a
  float (\<open>F\<close>, or \<open>NaN\<close>), an integer (\<open>I\<close>), a polygon object (\<open>P\<close>) or Python's \<^verbatim>\<open>None\<close>
  (\<open>N\<close>); a value is a single object (\<open>Py\<close>) or an array of rank one or two. An \<open>Arr2\<close>
  stands for a rectangular array: its column count is the length of its first row.
  IEEE doubles are idealised as the real numbers and NaN (no rounding, no infinity).
\<close>

type_synonym polygon = "(real \<times> real) list"

datatype scalar = F real | NaN | I int | P polygon | N

datatype pyval = Py scalar | Arr1 "scalar list" | Arr2 "scalar list list"

text \<open>The exception classes that the module and the library calls it makes can raise.\<close>

datatype error =
    ValueError string
  | TypeError string
  | IndexError string
  | AttributeError string
  | NotImplementedError string

text \<open>
  A float64 in arithmetic: a real number, or NaN (\<open>None\<close>). Numeric arrays, after
  conversion to float64: a scalar, a vector or a matrix.
\<close>

type_synonym float64 = "real option"

datatype ndarray = S float64 | V "float64 list" | M "float64 list list"

fun num :: "scalar \<Rightarrow> error + float64" where
  "num (F r) = Inr (Some r)"
| "num NaN = Inr None"
| "num (I i) = Inr (Some (of_int i))"
| "num (P p) = Inl (TypeError ''float() argument must be a string or a number'')"
| "num N = Inl (TypeError ''float() argument must be a string or a number'')"

fun of_float :: "float64 \<Rightarrow> scalar" where
  "of_float (Some r) = F r"
| "of_float None = NaN"

fun nums :: "scalar list \<Rightarrow> error + float64 list" where
  "nums [] = Inr []"
| "nums (x # xs) =
     (case num x of
        Inl e \<Rightarrow> Inl e
      | Inr r \<Rightarrow> (case nums xs of Inl e \<Rightarrow> Inl e | Inr rs \<Rightarrow> Inr (r # rs)))"

fun nums2 :: "scalar list list \<Rightarrow> error + float64 list list" where
  "nums2 [] = Inr []"
| "nums2 (row # rows) =
     (case nums row of
        Inl e \<Rightarrow> Inl e
      | Inr r \<Rightarrow> (case nums2 rows of Inl e \<Rightarrow> Inl e | Inr rs \<Rightarrow> Inr (r # rs)))"

fun numeric :: "pyval \<Rightarrow> error + ndarray" where
  "numeric (Py x) = (case num x of Inl e \<Rightarrow> Inl e | Inr r \<Rightarrow> Inr (S r))"
| "numeric (Arr1 xs) = (case nums xs of Inl e \<Rightarrow> Inl e | Inr rs \<Rightarrow> Inr (V rs))"
| "numeric (Arr2 rows) = (case nums2 rows of Inl e \<Rightarrow> Inl e | Inr rs \<Rightarrow> Inr (M rs))"

fun of_ndarray :: "ndarray \<Rightarrow> pyval" where
  "of_ndarray (S r) = Py (of_float r)"
| "of_ndarray (V rs) = Arr1 (map of_float rs)"
| "of_ndarray (M rows) = Arr2 (map (map of_float) rows)"

text \<open>\<^verbatim>\<open>np.shape(x)\<close>: the empty tuple for \<^verbatim>\<open>None\<close> and for a scalar.\<close>

fun np_shape :: "pyval \<Rightarrow> nat list" where
  "np_shape (Py x) = []"
| "np_shape (Arr1 xs) = [length xs]"
| "np_shape (Arr2 rows) = [length rows, (case rows of [] \<Rightarrow> 0 | r # _ \<Rightarrow> length r)]"

text \<open>\<^verbatim>\<open>float(x)\<close>: defined on numbers and on arrays of exactly one element.\<close>

fun py_float :: "pyval \<Rightarrow> error + float64" where
  "py_float (Py x) = num x"
| "py_float (Arr1 [x]) = num x"
| "py_float (Arr2 [[x]]) = num x"
| "py_float _ = Inl (TypeError ''only size-1 arrays can be converted to Python scalars'')"

text \<open>\<^verbatim>\<open>int(x)\<close>: a float is truncated towards zero, NaN raises.\<close>

definition py_int :: "pyval \<Rightarrow> error + int" where
  "py_int v =
     (case v of
        Py (I i) \<Rightarrow> Inr i
      | _ \<Rightarrow> (case py_float v of
                Inl e \<Rightarrow> Inl e
              | Inr None \<Rightarrow> Inl (ValueError ''cannot convert float NaN to integer'')
              | Inr (Some r) \<Rightarrow> Inr (if 0 \<le> r then \<lfloor>r\<rfloor> else \<lceil>r\<rceil>)))"

text \<open>
  The conversion of the elements of a value to the dtype float64, when an array of that
  dtype is made or assigned to: NumPy makes NaN of \<^verbatim>\<open>None\<close> here, which \<^verbatim>\<open>float\<close> and the
  arithmetic refuse.
\<close>

fun none_as_nan :: "scalar \<Rightarrow> scalar" where
  "none_as_nan N = NaN"
| "none_as_nan x = x"

fun map_pyval :: "(scalar \<Rightarrow> scalar) \<Rightarrow> pyval \<Rightarrow> pyval" where
  "map_pyval f (Py x) = Py (f x)"
| "map_pyval f (Arr1 xs) = Arr1 (map f xs)"
| "map_pyval f (Arr2 rows) = Arr2 (map (map f) rows)"

definition as_float64 :: "pyval \<Rightarrow> error + ndarray" where
  "as_float64 v = numeric (map_pyval none_as_nan v)"

text \<open>\<^verbatim>\<open>np.asanyarray(x, dtype=np.float64)\<close>\<close>

definition asanyarray_float64 :: "pyval \<Rightarrow> error + pyval" where
  "asanyarray_float64 v = (case as_float64 v of Inl e \<Rightarrow> Inl e | Inr a \<Rightarrow> Inr (of_ndarray a))"

definition np_zeros :: "nat \<Rightarrow> pyval" where
  "np_zeros n = Arr1 (replicate n (F 0))"

definition np_ones :: "nat \<Rightarrow> pyval" where
  "np_ones n = Arr1 (replicate n (F 1))"

definition np_eye :: "nat \<Rightarrow> pyval" where
  "np_eye n = Arr2 (map (\<lambda>i. map (\<lambda>j. F (if i = j then 1 else 0)) [0..<n]) [0..<n])"

text \<open>\<^verbatim>\<open>x[0]\<close> on an array: its first element, or its first row.\<close>

fun getitem0 :: "pyval \<Rightarrow> error + pyval" where
  "getitem0 (Py x) = Inl (TypeError ''object is not subscriptable'')"
| "getitem0 (Arr1 []) = Inl (IndexError ''index 0 is out of bounds for axis 0 with size 0'')"
| "getitem0 (Arr1 (x # xs)) = Inr (Py x)"
| "getitem0 (Arr2 []) = Inl (IndexError ''index 0 is out of bounds for axis 0 with size 0'')"
| "getitem0 (Arr2 (r # rs)) = Inr (Arr1 r)"

text \<open>\<^verbatim>\<open>a[i, j] = x\<close> on a float matrix.\<close>

definition setitem2 :: "nat \<Rightarrow> nat \<Rightarrow> float64 \<Rightarrow> pyval \<Rightarrow> error + pyval" where
  "setitem2 i j x a =
     (case a of
        Arr2 rows \<Rightarrow>
          (if i < length rows \<and> j < length (rows ! i)
           then Inr (Arr2 (rows[i := (rows ! i)[j := of_float x]]))
           else Inl (IndexError ''index is out of bounds''))
      | _ \<Rightarrow> Inl (IndexError ''too many indices for array''))"

text \<open>\<^verbatim>\<open>a[0:3, 0:3]\<close>: slices never fail on a matrix, they clip.\<close>

definition slice33 :: "pyval \<Rightarrow> error + pyval" where
  "slice33 a =
     (case a of
        Arr2 rows \<Rightarrow> Inr (Arr2 (map (take 3) (take 3 rows)))
      | _ \<Rightarrow> Inl (IndexError ''too many indices for array''))"

text \<open>
  Broadcasting of an elementwise binary operator over two arrays of rank at most two:
  along each axis the extents agree, or one of them is 1 and is repeated.
\<close>

definition bc1 :: "('a \<Rightarrow> 'a \<Rightarrow> 'a) \<Rightarrow> 'a list \<Rightarrow> 'a list \<Rightarrow> 'a list option" where
  "bc1 f xs ys =
     (if length xs = length ys then Some (map2 f xs ys)
      else if length xs = 1 then Some (map (f (hd xs)) ys)
      else if length ys = 1 then Some (map (\<lambda>x. f x (hd ys)) xs)
      else None)"

definition bc2 ::
  "('a \<Rightarrow> 'a \<Rightarrow> 'a) \<Rightarrow> 'a list list \<Rightarrow> 'a list list \<Rightarrow> 'a list list option" where
  "bc2 f A B =
     (if length A = length B then those (map2 (bc1 f) A B)
      else if length A = 1 then those (map (bc1 f (hd A)) B)
      else if length B = 1 then those (map (\<lambda>a. bc1 f a (hd B)) A)
      else None)"

fun broadcast ::
  "(float64 \<Rightarrow> float64 \<Rightarrow> float64) \<Rightarrow> ndarray \<Rightarrow> ndarray \<Rightarrow> ndarray option" where
  "broadcast f (S x) (S y) = Some (S (f x y))"
| "broadcast f (S x) (V ys) = Some (V (map (f x) ys))"
| "broadcast f (S x) (M B) = Some (M (map (map (f x)) B))"
| "broadcast f (V xs) (S y) = Some (V (map (\<lambda>x. f x y) xs))"
| "broadcast f (V xs) (V ys) = map_option V (bc1 f xs ys)"
| "broadcast f (V xs) (M B) = map_option M (bc2 f [xs] B)"
| "broadcast f (M A) (S y) = Some (M (map (map (\<lambda>x. f x y)) A))"
| "broadcast f (M A) (V ys) = map_option M (bc2 f A [ys])"
| "broadcast f (M A) (M B) = map_option M (bc2 f A B)"

text \<open>An arithmetic operation on two float64: NaN as soon as an operand is NaN.\<close>

fun float_op :: "(real \<Rightarrow> real \<Rightarrow> real) \<Rightarrow> float64 \<Rightarrow> float64 \<Rightarrow> float64" where
  "float_op f (Some x) (Some y) = Some (f x y)"
| "float_op f x y = None"

definition np_binop :: "(real \<Rightarrow> real \<Rightarrow> real) \<Rightarrow> pyval \<Rightarrow> pyval \<Rightarrow> error + pyval" where
  "np_binop f a b =
     (case numeric a of
        Inl e \<Rightarrow> Inl e
      | Inr x \<Rightarrow>
          (case numeric b of
             Inl e \<Rightarrow> Inl e
           | Inr y \<Rightarrow>
               (case broadcast (float_op f) x y of
                  None \<Rightarrow> Inl (ValueError ''operands could not be broadcast together'')
                | Some z \<Rightarrow> Inr (of_ndarray z))))"

definition np_multiply :: "pyval \<Rightarrow> pyval \<Rightarrow> error + pyval" where
  "np_multiply = np_binop (\<lambda>x y. x * y)"

definition np_add :: "pyval \<Rightarrow> pyval \<Rightarrow> error + pyval" where
  "np_add = np_binop (\<lambda>x y. x + y)"

text \<open>An elementwise function of one array; of NaN it makes NaN.\<close>

fun map_ndarray :: "(float64 \<Rightarrow> float64) \<Rightarrow> ndarray \<Rightarrow> ndarray" where
  "map_ndarray f (S x) = S (f x)"
| "map_ndarray f (V xs) = V (map f xs)"
| "map_ndarray f (M A) = M (map (map f) A)"

definition np_map :: "(real \<Rightarrow> real) \<Rightarrow> pyval \<Rightarrow> error + pyval" where
  "np_map f a =
     (case numeric a of Inl e \<Rightarrow> Inl e | Inr x \<Rightarrow> Inr (of_ndarray (map_ndarray (map_option f) x)))"

text \<open>\<^verbatim>\<open>np.product(a)\<close>: the product of all elements, NaN when one of them is NaN.\<close>

fun flat :: "ndarray \<Rightarrow> float64 list" where
  "flat (S x) = [x]"
| "flat (V xs) = xs"
| "flat (M A) = concat A"

definition np_product :: "pyval \<Rightarrow> error + float64" where
  "np_product a =
     (case numeric a of Inl e \<Rightarrow> Inl e | Inr x \<Rightarrow> Inr (map_option prod_list (those (flat x))))"

text \<open>
  \<^verbatim>\<open>np.dot(a, b)\<close>: the inner dimensions must agree. The inner product of two rows of
  numbers, and of two rows of float64, which is NaN when one of the products is NaN.
\<close>

definition inner :: "real list \<Rightarrow> real list \<Rightarrow> real" where
  "inner xs ys = sum_list (map2 (\<lambda>x y. x * y) xs ys)"

definition inner64 :: "float64 list \<Rightarrow> float64 list \<Rightarrow> float64" where
  "inner64 xs ys = map_option sum_list (those (map2 (float_op (\<lambda>x y. x * y)) xs ys))"

definition misaligned :: error where
  "misaligned = ValueError ''shapes not aligned''"

fun dot :: "ndarray \<Rightarrow> ndarray \<Rightarrow> error + ndarray" where
  "dot (M A) (M B) =
     (if list_all (\<lambda>r. length r = length B) A
      then Inr (M (map (\<lambda>r. map (inner64 r) (transpose B)) A))
      else Inl misaligned)"
| "dot (M A) (V v) =
     (if list_all (\<lambda>r. length r = length v) A
      then Inr (V (map (\<lambda>r. inner64 r v) A))
      else Inl misaligned)"
| "dot (V v) (M B) =
     (if length v = length B then Inr (V (map (inner64 v) (transpose B))) else Inl misaligned)"
| "dot (V v) (V w) = (if length v = length w then Inr (S (inner64 v w)) else Inl misaligned)"
| "dot (S x) b = Inr (map_ndarray (float_op (\<lambda>x y. x * y) x) b)"
| "dot a (S y) = Inr (map_ndarray (\<lambda>x. float_op (\<lambda>x y. x * y) x y) a)"

definition np_dot :: "pyval \<Rightarrow> pyval \<Rightarrow> error + pyval" where
  "np_dot a b =
     (case numeric a of
        Inl e \<Rightarrow> Inl e
      | Inr x \<Rightarrow>
          (case numeric b of
             Inl e \<Rightarrow> Inl e
           | Inr y \<Rightarrow> (case dot x y of Inl e \<Rightarrow> Inl e | Inr z \<Rightarrow> Inr (of_ndarray z))))"

text \<open>\<^verbatim>\<open>a.T\<close>.\<close>

fun np_T :: "pyval \<Rightarrow> pyval" where
  "np_T (Arr2 rows) = Arr2 (transpose rows)"
| "np_T a = a"

text \<open>\<^verbatim>\<open>a[:1]\<close>: the first row (or element) as an array of its own.\<close>

fun take1 :: "pyval \<Rightarrow> error + pyval" where
  "take1 (Py x) = Inl (IndexError ''invalid index to scalar variable'')"
| "take1 (Arr1 xs) = Inr (Arr1 (take 1 xs))"
| "take1 (Arr2 rows) = Inr (Arr2 (take 1 rows))"

text \<open>
  \<^verbatim>\<open>vertices[index_array]\<close>: every index picks a row; a negative index counts from the end,
  an index out of range raises.
\<close>

fun collect :: "(error + 'a) list \<Rightarrow> error + 'a list" where
  "collect [] = Inr []"
| "collect (x # xs) =
     (case x of
        Inl e \<Rightarrow> Inl e
      | Inr y \<Rightarrow> (case collect xs of Inl e \<Rightarrow> Inl e | Inr ys \<Rightarrow> Inr (y # ys)))"

definition index1 :: "'a list \<Rightarrow> int \<Rightarrow> error + 'a" where
  "index1 xs i =
     (let n = int (length xs); j = (if i < 0 then i + n else i)
      in if 0 \<le> j \<and> j < n then Inr (xs ! nat j) else Inl (IndexError ''index is out of bounds''))"

definition index_rows :: "'a list \<Rightarrow> int list list \<Rightarrow> error + 'a list list" where
  "index_rows xs rows = collect (map (\<lambda>row. collect (map (index1 xs) row)) rows)"

text \<open>\<^verbatim>\<open>np.fliplr(faces)\<close>: every row in reverse column order.\<close>

definition fliplr :: "'a list list \<Rightarrow> 'a list list" where
  "fliplr rows = map rev rows"

definition float_array :: "real list list \<Rightarrow> pyval" where
  "float_array rows = Arr2 (map (map F) rows)"

definition int_array :: "int list list \<Rightarrow> pyval" where
  "int_array rows = Arr2 (map (map I) rows)"

section \<open>Collaborators outside the module\<close>

text \<open>
  A triangle mesh as the base class keeps it: points, index triples and one normal per
  face.
\<close>

record mesh =
  vertices :: "real list list"
  faces :: "int list list"
  face_normals :: "real list list"

text \<open>
  The functions of the modules \<^verbatim>\<open>creation\<close>, \<^verbatim>\<open>points\<close>, \<^verbatim>\<open>triangles\<close> and \<^verbatim>\<open>util\<close> that the
  primitives call and whose code is not part of \<^verbatim>\<open>primitives.py\<close>. They are parameters of
  the model. \<open>apply_transform\<close> is the mesh method of that name.
\<close>

record ext =
  creation_icosphere :: "int \<Rightarrow> mesh"
  creation_box :: mesh
  creation_cylinder :: "pyval \<Rightarrow> pyval \<Rightarrow> pyval \<Rightarrow> mesh"
  creation_extrude_polygon :: "pyval \<Rightarrow> pyval \<Rightarrow> mesh"
  validate_polygon :: "pyval \<Rightarrow> error + pyval"
  apply_transform :: "pyval \<Rightarrow> mesh \<Rightarrow> mesh"
  transform_points :: "pyval \<Rightarrow> pyval \<Rightarrow> real list list"
  windings_aligned :: "real list list list \<Rightarrow> pyval \<Rightarrow> bool list"
  convert_like :: "pyval \<Rightarrow> pyval \<Rightarrow> pyval"

text \<open>
  Modelled from the spec: \<^verbatim>\<open>util.is_shape\<close> is not in the module. The spec speaks of a
  validly shaped array and of the required shape \<open>(3,)\<close> or \<open>(4,4)\<close>; the module also asks
  for \<open>(-1,3)\<close>, where a negative entry stands for any extent. An object that is not an
  array has no shape and is never valid.
\<close>

definition is_shape :: "pyval \<Rightarrow> int list \<Rightarrow> bool" where
  "is_shape obj shape =
     (case obj of
        Py x \<Rightarrow> False
      | _ \<Rightarrow> list_all2 (\<lambda>i t. t < 0 \<or> int i = t) (np_shape obj) shape)"

text \<open>
  Modelled from the spec: \<^verbatim>\<open>util.DataStore\<close> is not in the module. The spec says that a
  scalar is stored as a length-1 array; the getters of the module test the value read
  for \<^verbatim>\<open>None\<close>, so reading a key that was never written gives \<^verbatim>\<open>None\<close>.
\<close>

type_synonym DataStore = "(string \<times> pyval) list"

fun tracked_array :: "pyval \<Rightarrow> pyval" where
  "tracked_array (Py x) = Arr1 [x]"
| "tracked_array a = a"

definition DataStore_getitem :: "DataStore \<Rightarrow> string \<Rightarrow> pyval" where
  "DataStore_getitem d key = (case map_of d key of None \<Rightarrow> Py N | Some v \<Rightarrow> v)"

definition DataStore_setitem :: "string \<Rightarrow> pyval \<Rightarrow> DataStore \<Rightarrow> DataStore" where
  "DataStore_setitem key v d = AList.update key (tracked_array v) d"

definition DataStore_update :: "(string \<times> pyval) list \<Rightarrow> DataStore \<Rightarrow> DataStore" where
  "DataStore_update items d = fold (\<lambda>(key, v). DataStore_setitem key v) items d"

text \<open>
  Modelled from the spec: \<^verbatim>\<open>util.Cache\<close> is not in the module. A slot is absent or holds
  a value; reading an absent slot gives \<^verbatim>\<open>None\<close>.
\<close>

type_synonym Cache = "string \<rightharpoonup> pyval"

definition Cache_getitem :: "Cache \<Rightarrow> string \<Rightarrow> pyval" where
  "Cache_getitem c key = (case c key of None \<Rightarrow> Py N | Some v \<Rightarrow> v)"

section \<open>The attribute store\<close>

text \<open>
  An instance of \<^verbatim>\<open>_PrimitiveAttributes\<close> is its instance dictionary. \<^verbatim>\<open>__init__\<close> binds
  \<^verbatim>\<open>_data\<close> and \<^verbatim>\<open>_defaults\<close> to mappings; every other entry is a plain value.
\<close>

datatype attr = Store "(string \<times> pyval) list" | Plain pyval

type_synonym attrs = "string \<rightharpoonup> attr"

text \<open>
  \<^verbatim>\<open>self._data\<close> and \<^verbatim>\<open>self._defaults\<close>: when the name is not bound, the lookup ends in
  \<^verbatim>\<open>__getattr__\<close>, whose first branch (the name has an underscore) raises.
\<close>

definition the_store :: "string \<Rightarrow> attrs \<Rightarrow> error + (string \<times> pyval) list" where
  "the_store name a =
     (case a name of
        None \<Rightarrow> Inl (AttributeError ''super object has no attribute __getattr__'')
      | Some (Plain v) \<Rightarrow> Inl (TypeError ''object is not a mapping'')
      | Some (Store d) \<Rightarrow> Inr d)"

text \<open>
  \<^verbatim>\<open>object.__setattr__\<close>: binds the name in the instance dictionary. The three names
  that the type itself guards cannot be bound to a value.
\<close>

definition object_setattr :: "string \<Rightarrow> pyval \<Rightarrow> attrs \<Rightarrow> error + attrs" where
  "object_setattr key v a =
     (if key = ''__class__'' \<or> key = ''__dict__''
      then Inl (TypeError ''must be set to a class or a dictionary'')
      else if key = ''__weakref__'' then Inl (AttributeError ''attribute is not writable'')
      else Inr (a(key \<mapsto> Plain v)))"

text \<open>
  The body of the loop of \<^verbatim>\<open>__init__\<close> over \<^verbatim>\<open>kwargs.items()\<close>: a keyword that is a key
  of the defaults is converted like its default and stored; any other is skipped.
\<close>

definition overlay ::
  "ext \<Rightarrow> (string \<times> pyval) list \<Rightarrow> string \<times> pyval \<Rightarrow> DataStore \<Rightarrow> DataStore" where
  "overlay ext defaults = (\<lambda>(key, v) acc.
     (case map_of defaults key of
        Some dv \<Rightarrow> DataStore_setitem key (convert_like ext v dv) acc
      | None \<Rightarrow> acc))"

text \<open>
  \<^verbatim>\<open>_PrimitiveAttributes.__init__(data, defaults, kwargs)\<close>. Both assignments go through
  \<^verbatim>\<open>__setattr__\<close> with a name that has an underscore, so they bind the names.
\<close>

definition PrimitiveAttributes_init ::
  "ext \<Rightarrow> DataStore \<Rightarrow> (string \<times> pyval) list \<Rightarrow> (string \<times> pyval) list \<Rightarrow> attrs" where
  "PrimitiveAttributes_init ext d defaults kwargs =
     (let d0 = DataStore_update defaults d;
          d1 = fold (overlay ext defaults) kwargs d0
      in [''_data'' \<mapsto> Store d1, ''_defaults'' \<mapsto> Store defaults])"

text \<open>\<^verbatim>\<open>_PrimitiveAttributes.__getattr__(key)\<close>, which Python calls for a name that is not bound.\<close>

definition PrimitiveAttributes_getattr :: "ext \<Rightarrow> string \<Rightarrow> attrs \<Rightarrow> error + pyval" where
  "PrimitiveAttributes_getattr ext key a =
     (if CHR ''_'' \<in> set key
      then Inl (AttributeError ''super object has no attribute __getattr__'')
      else (case the_store ''_defaults'' a of
              Inl e \<Rightarrow> Inl e
            | Inr defaults \<Rightarrow>
                (case map_of defaults key of
                   Some dv \<Rightarrow>
                     (case the_store ''_data'' a of
                        Inl e \<Rightarrow> Inl e
                      | Inr d \<Rightarrow> Inr (convert_like ext (DataStore_getitem d key) dv))
                 | None \<Rightarrow> Inl (AttributeError ''super object has no attribute __getattr__''))))"

text \<open>
  \<^verbatim>\<open>_PrimitiveAttributes.__setattr__(key, value)\<close>. The message of the error is kept as
  the format string, without the list of keys.
\<close>

definition PrimitiveAttributes_setattr :: "string \<Rightarrow> pyval \<Rightarrow> attrs \<Rightarrow> error + attrs" where
  "PrimitiveAttributes_setattr key v a =
     (if CHR ''_'' \<in> set key then object_setattr key v a
      else (case the_store ''_defaults'' a of
              Inl e \<Rightarrow> Inl e
            | Inr defaults \<Rightarrow>
                (if map_of defaults key \<noteq> None
                 then (case the_store ''_data'' a of
                         Inl e \<Rightarrow> Inl e
                       | Inr d \<Rightarrow> Inr (a(''_data'' \<mapsto> Store (DataStore_setitem key v d))))
                 else Inl (ValueError ''Only default attributes {} can be set!''))))"

section \<open>The lazy primitive\<close>

datatype level = DEBUG | INFO | WARNING

text \<open>
  The class of a primitive, with the attributes that only that class has: the attribute
  store of a cylinder (\<^verbatim>\<open>primitive_data\<close>), the template meshes of a sphere and of a box
  (\<^verbatim>\<open>_unit_sphere\<close>, \<^verbatim>\<open>_unit_box\<close>).
\<close>

datatype kind =
    Primitive
  | Cylinder "string \<Rightarrow> attr option"
  | Sphere mesh
  | Box mesh
  | Extrusion

text \<open>
  The object: its class, \<^verbatim>\<open>_data\<close>, \<^verbatim>\<open>_cache\<close>, \<^verbatim>\<open>_validate\<close>, and the records that the
  module has sent to the logger (level, format string, arguments).
\<close>

record primitive =
  kind :: kind
  data :: DataStore
  cache :: Cache
  validate :: bool
  logs :: "(level \<times> string \<times> pyval list) list"

definition log_emit :: "level \<Rightarrow> string \<Rightarrow> pyval list \<Rightarrow> primitive \<Rightarrow> primitive" where
  "log_emit lvl msg args s = s\<lparr>logs := logs s @ [(lvl, msg, args)]\<rparr>"

text \<open>
  Modelled from the spec: the link between \<^verbatim>\<open>util.DataStore\<close> and \<^verbatim>\<open>util.Cache\<close> is not in
  the module, and no setter of the module touches the cache. The spec says that the
  cache is invalidated on write and that it has no stale state, so a write to the store
  leaves every slot of the cache absent.
\<close>

definition data_setitem :: "string \<Rightarrow> pyval \<Rightarrow> primitive \<Rightarrow> primitive" where
  "data_setitem key v s = s\<lparr>data := DataStore_setitem key v (data s), cache := Map.empty\<rparr>"

definition data_clear :: "primitive \<Rightarrow> primitive" where
  "data_clear s = s\<lparr>data := [], cache := Map.empty\<rparr>"

definition cache_setitem :: "string \<Rightarrow> pyval \<Rightarrow> primitive \<Rightarrow> primitive" where
  "cache_setitem key v s = s\<lparr>cache := (cache s)(key \<mapsto> v)\<rparr>"

text \<open>
  Modelled from the spec: \<^verbatim>\<open>util.cache_decorator\<close> is not in the module. The spec calls
  the decorated property derived and cached: it is computed when its slot is absent,
  stored under the name of the function, and read from the slot afterwards.
\<close>

definition cache_decorator ::
  "string \<Rightarrow> (primitive \<Rightarrow> error + pyval) \<Rightarrow> primitive \<Rightarrow> error + pyval \<times> primitive" where
  "cache_decorator name f s =
     (case cache s name of
        Some v \<Rightarrow> Inr (v, s)
      | None \<Rightarrow> (case f s of Inl e \<Rightarrow> Inl e | Inr v \<Rightarrow> Inr (v, cache_setitem name v s)))"

text \<open>
  \<^verbatim>\<open>_Primitive.__init__\<close>. \<^verbatim>\<open>Trimesh.__init__\<close> is not in the module: the argument is the
  object as it leaves it.
\<close>

definition Primitive_init :: "primitive \<Rightarrow> primitive" where
  "Primitive_init b = (data_clear b)\<lparr>validate := False\<rparr>"

text \<open>\<^verbatim>\<open>if key in kwargs: self.prop = kwargs[key]\<close>\<close>

definition set_from_kwargs ::
  "(string \<times> pyval) list \<Rightarrow> string \<Rightarrow> (pyval \<Rightarrow> primitive \<Rightarrow> error + primitive) \<Rightarrow>
   primitive \<Rightarrow> error + primitive" where
  "set_from_kwargs kwargs key setter s =
     (case map_of kwargs key of None \<Rightarrow> Inr s | Some v \<Rightarrow> setter v s)"

text \<open>\<^verbatim>\<open>_Primitive._create_mesh\<close>\<close>

definition Primitive_create_mesh :: "primitive \<Rightarrow> error + primitive" where
  "Primitive_create_mesh s = Inl (ValueError ''Primitive doesn't define mesh creation!'')"

text \<open>The three assignments to the cache that end every \<^verbatim>\<open>_create_mesh\<close>.\<close>

definition store_mesh :: "pyval \<Rightarrow> pyval \<Rightarrow> pyval \<Rightarrow> primitive \<Rightarrow> primitive" where
  "store_mesh v f n s =
     cache_setitem ''face_normals'' n (cache_setitem ''faces'' f (cache_setitem ''vertices'' v s))"

subsection \<open>Cylinder\<close>

definition Cylinder_defaults :: "(string \<times> pyval) list" where
  "Cylinder_defaults =
     [(''height'', Py (F 1)), (''radius'', Py (F 1)), (''transform'', np_eye 4),
      (''sections'', Py (I 32))]"

text \<open>
  \<^verbatim>\<open>Cylinder.__init__\<close>. The attribute store is built on the object's own \<^verbatim>\<open>_data\<close>, so
  what it writes is written to the object's store.
\<close>

definition Cylinder_init :: "ext \<Rightarrow> primitive \<Rightarrow> (string \<times> pyval) list \<Rightarrow> primitive" where
  "Cylinder_init ext b kwargs =
     (let s = Primitive_init b;
          pd = PrimitiveAttributes_init ext (data s) Cylinder_defaults kwargs
      in s\<lparr>kind := Cylinder pd,
           data := (case pd ''_data'' of Some (Store d) \<Rightarrow> d | _ \<Rightarrow> data s),
           cache := Map.empty\<rparr>)"

text \<open>
  \<^verbatim>\<open>Cylinder._create_mesh\<close>. The four names have no underscore and are never bound in
  the instance dictionary, so each read of \<^verbatim>\<open>self.primitive_data\<close> ends in \<^verbatim>\<open>__getattr__\<close>.
\<close>

definition Cylinder_create_mesh :: "ext \<Rightarrow> attrs \<Rightarrow> primitive \<Rightarrow> error + primitive" where
  "Cylinder_create_mesh ext pd s =
     (case PrimitiveAttributes_getattr ext ''radius'' pd of
        Inl e \<Rightarrow> Inl e
      | Inr radius \<Rightarrow>
     (case PrimitiveAttributes_getattr ext ''height'' pd of
        Inl e \<Rightarrow> Inl e
      | Inr height \<Rightarrow>
     (case PrimitiveAttributes_getattr ext ''sections'' pd of
        Inl e \<Rightarrow> Inl e
      | Inr sections \<Rightarrow>
     (let s1 = log_emit INFO ''Creating cylinder mesh with r=%f, h=%f and %d sections''
                 [radius, height, sections] s;
          m = creation_cylinder ext radius height sections
      in (case PrimitiveAttributes_getattr ext ''transform'' pd of
            Inl e \<Rightarrow> Inl e
          | Inr transform \<Rightarrow>
              (let m' = apply_transform ext transform m
               in Inr (store_mesh (float_array (vertices m')) (int_array (faces m'))
                        (float_array (face_normals m')) s1)))))))"

subsection \<open>Sphere\<close>

definition Sphere_sphere_center :: "primitive \<Rightarrow> error + pyval" where
  "Sphere_sphere_center s =
     (let stored = DataStore_getitem (data s) ''center''
      in if stored = Py N then Inr (np_zeros 3) else Inr stored)"

definition Sphere_sphere_center_set :: "pyval \<Rightarrow> primitive \<Rightarrow> error + primitive" where
  "Sphere_sphere_center_set v s =
     (case asanyarray_float64 v of
        Inl e \<Rightarrow> Inl e
      | Inr a \<Rightarrow> Inr (data_setitem ''center'' a s))"

definition Sphere_sphere_radius :: "primitive \<Rightarrow> error + pyval" where
  "Sphere_sphere_radius s =
     (let stored = DataStore_getitem (data s) ''radius''
      in if stored = Py N then Inr (Py (F 1)) else getitem0 stored)"

definition Sphere_sphere_radius_set :: "pyval \<Rightarrow> primitive \<Rightarrow> error + primitive" where
  "Sphere_sphere_radius_set v s =
     (case py_float v of
        Inl e \<Rightarrow> Inl e
      | Inr r \<Rightarrow> Inr (data_setitem ''radius'' (Py (of_float r)) s))"

text \<open>The body of \<^verbatim>\<open>Sphere.volume\<close>, and the property that the decorator makes of it.\<close>

definition Sphere_volume_body :: "primitive \<Rightarrow> error + pyval" where
  "Sphere_volume_body s =
     (case Sphere_sphere_radius s of
        Inl e \<Rightarrow> Inl e
      | Inr r \<Rightarrow> np_map (\<lambda>x. (4 * pi * x ^ 3) / 3) r)"

definition Sphere_volume :: "primitive \<Rightarrow> error + pyval \<times> primitive" where
  "Sphere_volume = cache_decorator ''volume'' Sphere_volume_body"

definition Sphere_create_mesh :: "mesh \<Rightarrow> primitive \<Rightarrow> error + primitive" where
  "Sphere_create_mesh ico s =
     (case Sphere_sphere_radius s of
        Inl e \<Rightarrow> Inl e
      | Inr r \<Rightarrow>
     (case np_multiply (float_array (vertices ico)) r of
        Inl e \<Rightarrow> Inl e
      | Inr scaled \<Rightarrow>
     (case Sphere_sphere_center s of
        Inl e \<Rightarrow> Inl e
      | Inr c \<Rightarrow>
     (case np_add scaled c of
        Inl e \<Rightarrow> Inl e
      | Inr v \<Rightarrow>
          Inr (store_mesh v (int_array (faces ico)) (float_array (face_normals ico)) s)))))"

definition Sphere_init :: "ext \<Rightarrow> primitive \<Rightarrow> (string \<times> pyval) list \<Rightarrow> error + primitive" where
  "Sphere_init ext b kwargs =
     (let subdivisions =
            (case map_of kwargs ''subdivisions'' of
               None \<Rightarrow> 3
             | Some v \<Rightarrow> (case py_int v of Inl e \<Rightarrow> 3 | Inr n \<Rightarrow> n));
          s = Primitive_init (b\<lparr>kind := Sphere (creation_icosphere ext subdivisions)\<rparr>)
      in (case set_from_kwargs kwargs ''sphere_radius'' Sphere_sphere_radius_set s of
            Inl e \<Rightarrow> Inl e
          | Inr s1 \<Rightarrow> set_from_kwargs kwargs ''sphere_center'' Sphere_sphere_center_set s1))"

subsection \<open>Box\<close>

definition Box_box_extents :: "primitive \<Rightarrow> error + pyval" where
  "Box_box_extents s =
     (let stored = DataStore_getitem (data s) ''box_extents''
      in if is_shape stored [3] then Inr stored else Inr (np_ones 3))"

definition Box_box_extents_set :: "pyval \<Rightarrow> primitive \<Rightarrow> error + primitive" where
  "Box_box_extents_set v s =
     (case asanyarray_float64 v of
        Inl e \<Rightarrow> Inl e
      | Inr a \<Rightarrow> Inr (data_setitem ''box_extents'' a s))"

definition Box_box_transform :: "primitive \<Rightarrow> error + pyval" where
  "Box_box_transform s =
     (let stored = DataStore_getitem (data s) ''box_transform''
      in if is_shape stored [4, 4] then Inr stored else Inr (np_eye 4))"

definition Box_box_transform_set :: "pyval \<Rightarrow> primitive \<Rightarrow> error + primitive" where
  "Box_box_transform_set v s =
     (case asanyarray_float64 v of
        Inl e \<Rightarrow> Inl e
      | Inr matrix \<Rightarrow>
          (if np_shape matrix \<noteq> [4, 4] then Inl (ValueError ''Matrix must be (4,4)!'')
           else Inr (data_setitem ''box_transform'' matrix s)))"

text \<open>
  \<^verbatim>\<open>transform[0:3,3] = values\<close>: the values are a number, a vector of the length of the
  slice or of length 1, or a matrix of one such row.
\<close>

definition column_values :: "nat \<Rightarrow> ndarray \<Rightarrow> float64 list option" where
  "column_values k x =
     (case x of
        S v \<Rightarrow> Some (replicate k v)
      | V ys \<Rightarrow>
          (if length ys = k then Some ys
           else if length ys = 1 then Some (replicate k (hd ys)) else None)
      | M B \<Rightarrow>
          (case B of
             [ys] \<Rightarrow>
               (if length ys = k then Some ys
                else if length ys = 1 then Some (replicate k (hd ys)) else None)
           | _ \<Rightarrow> None))"

definition assign_column3 :: "pyval \<Rightarrow> pyval \<Rightarrow> error + pyval" where
  "assign_column3 a v =
     (case a of
        Arr2 rows \<Rightarrow>
          (if (case rows of [] \<Rightarrow> 0 | r # _ \<Rightarrow> length r) \<le> 3
           then Inl (IndexError ''index 3 is out of bounds for axis 1'')
           else (case as_float64 v of
                   Inl e \<Rightarrow> Inl e
                 | Inr x \<Rightarrow>
                     (case column_values (length (take 3 rows)) x of
                        None \<Rightarrow> Inl (ValueError ''could not broadcast input array'')
                      | Some col \<Rightarrow>
                          Inr (Arr2 (map2 (\<lambda>r c. r[3 := of_float c]) (take 3 rows) col @
                                     drop 3 rows)))))
      | _ \<Rightarrow> Inl (IndexError ''too many indices for array''))"

definition Box_box_center_set :: "pyval \<Rightarrow> primitive \<Rightarrow> error + primitive" where
  "Box_box_center_set v s =
     (case Box_box_transform s of
        Inl e \<Rightarrow> Inl e
      | Inr transform \<Rightarrow>
          (case assign_column3 transform v of
             Inl e \<Rightarrow> Inl e
           | Inr transform' \<Rightarrow> Inr (data_setitem ''box_transform'' transform' s)))"

definition Box_volume_body :: "primitive \<Rightarrow> error + pyval" where
  "Box_volume_body s =
     (case Box_box_extents s of
        Inl e \<Rightarrow> Inl e
      | Inr extents \<Rightarrow>
          (case np_product extents of Inl e \<Rightarrow> Inl e | Inr p \<Rightarrow> Inr (Py (of_float p))))"

definition Box_volume :: "primitive \<Rightarrow> error + pyval \<times> primitive" where
  "Box_volume = cache_decorator ''volume'' Box_volume_body"

text \<open>
  \<^verbatim>\<open>Box._create_mesh\<close>. \<open>windings_aligned\<close> gets the triangle of the first face only
  (\<^verbatim>\<open>vertices[faces[:1]]\<close>) and the first normal (\<^verbatim>\<open>normals[:1]\<close>); \<^verbatim>\<open>[0]\<close> takes the first
  entry of its answer.
\<close>

definition Box_create_mesh :: "ext \<Rightarrow> mesh \<Rightarrow> primitive \<Rightarrow> error + primitive" where
  "Box_create_mesh ext box s =
     (let s1 = log_emit DEBUG ''Creating mesh for box _Primitive'' [] s
      in
     (case Box_box_extents s1 of
        Inl e \<Rightarrow> Inl e
      | Inr extents \<Rightarrow>
     (case np_multiply (float_array (vertices box)) extents of
        Inl e \<Rightarrow> Inl e
      | Inr scaled \<Rightarrow>
     (case Box_box_transform s1 of
        Inl e \<Rightarrow> Inl e
      | Inr transform \<Rightarrow>
     (let verts = transform_points ext scaled transform
      in
     (case slice33 transform of
        Inl e \<Rightarrow> Inl e
      | Inr rot \<Rightarrow>
     (case np_dot rot (np_T (float_array (face_normals box))) of
        Inl e \<Rightarrow> Inl e
      | Inr nt \<Rightarrow>
     (let normals = np_T nt
      in
     (case index_rows verts (take 1 (faces box)) of
        Inl e \<Rightarrow> Inl e
      | Inr triangles \<Rightarrow>
     (case take1 normals of
        Inl e \<Rightarrow> Inl e
      | Inr normal1 \<Rightarrow>
     (case windings_aligned ext triangles normal1 of
        [] \<Rightarrow> Inl (IndexError ''index 0 is out of bounds for axis 0 with size 0'')
      | aligned # _ \<Rightarrow>
          (let faces' = (if \<not> aligned then fliplr (faces box) else faces box)
           in Inr (store_mesh (float_array verts) (int_array faces') normals s1)))))))))))))"

definition Box_init :: "ext \<Rightarrow> primitive \<Rightarrow> (string \<times> pyval) list \<Rightarrow> error + primitive" where
  "Box_init ext b kwargs =
     (let s = Primitive_init (b\<lparr>kind := Box (creation_box ext)\<rparr>)
      in (case set_from_kwargs kwargs ''box_extents'' Box_box_extents_set s of
            Inl e \<Rightarrow> Inl e
          | Inr s1 \<Rightarrow>
              (case set_from_kwargs kwargs ''box_transform'' Box_box_transform_set s1 of
                 Inl e \<Rightarrow> Inl e
               | Inr s2 \<Rightarrow> set_from_kwargs kwargs ''box_center'' Box_box_center_set s2)))"

subsection \<open>Extrusion\<close>

definition Extrusion_extrude_transform :: "primitive \<Rightarrow> error + pyval" where
  "Extrusion_extrude_transform s =
     (let stored = DataStore_getitem (data s) ''extrude_transform''
      in if np_shape stored = [4, 4] then Inr stored else Inr (np_eye 4))"

definition Extrusion_extrude_transform_set :: "pyval \<Rightarrow> primitive \<Rightarrow> error + primitive" where
  "Extrusion_extrude_transform_set v s =
     (case asanyarray_float64 v of
        Inl e \<Rightarrow> Inl e
      | Inr matrix \<Rightarrow>
          (if np_shape matrix \<noteq> [4, 4] then Inl (ValueError ''Matrix must be (4,4)!'')
           else Inr (data_setitem ''extrude_transform'' matrix s)))"

definition Extrusion_extrude_height :: "primitive \<Rightarrow> error + pyval" where
  "Extrusion_extrude_height s =
     (let stored = DataStore_getitem (data s) ''extrude_height''
      in if stored = Py N then Inl (ValueError ''extrude height not specified!'')
         else getitem0 stored)"

definition Extrusion_extrude_height_set :: "pyval \<Rightarrow> primitive \<Rightarrow> error + primitive" where
  "Extrusion_extrude_height_set v s =
     (case py_float v of
        Inl e \<Rightarrow> Inl e
      | Inr r \<Rightarrow> Inr (data_setitem ''extrude_height'' (Py (of_float r)) s))"

definition Extrusion_extrude_polygon :: "primitive \<Rightarrow> error + pyval" where
  "Extrusion_extrude_polygon s =
     (let stored = DataStore_getitem (data s) ''extrude_polygon''
      in if stored = Py N then Inl (ValueError ''extrude polygon not specified!'')
         else getitem0 stored)"

definition Extrusion_extrude_polygon_set :: "ext \<Rightarrow> pyval \<Rightarrow> primitive \<Rightarrow> error + primitive" where
  "Extrusion_extrude_polygon_set ext v s =
     (case validate_polygon ext v of
        Inl e \<Rightarrow> Inl e
      | Inr polygon \<Rightarrow> Inr (data_setitem ''extrude_polygon'' polygon s))"

definition Extrusion_extrude_direction :: "primitive \<Rightarrow> error + pyval" where
  "Extrusion_extrude_direction s =
     (case Extrusion_extrude_transform s of
        Inl e \<Rightarrow> Inl e
      | Inr transform \<Rightarrow>
          (case slice33 transform of
             Inl e \<Rightarrow> Inl e
           | Inr rot \<Rightarrow> np_dot rot (Arr1 [F 0, F 0, F 1])))"

definition Extrusion_slide :: "pyval \<Rightarrow> primitive \<Rightarrow> error + primitive" where
  "Extrusion_slide distance s =
     (case py_float distance of
        Inl e \<Rightarrow> Inl e
      | Inr d \<Rightarrow>
     (case setitem2 2 3 d (np_eye 4) of
        Inl e \<Rightarrow> Inl e
      | Inr translation \<Rightarrow>
     (case Extrusion_extrude_transform s of
        Inl e \<Rightarrow> Inl e
      | Inr transform \<Rightarrow>
     (case np_dot transform translation of
        Inl e \<Rightarrow> Inl e
      | Inr new_transform \<Rightarrow> Extrusion_extrude_transform_set new_transform s))))"

definition Extrusion_create_mesh :: "ext \<Rightarrow> primitive \<Rightarrow> error + primitive" where
  "Extrusion_create_mesh ext s =
     (let s1 = log_emit DEBUG ''Creating mesh for extrude _Primitive'' [] s
      in
     (case Extrusion_extrude_polygon s1 of
        Inl e \<Rightarrow> Inl e
      | Inr polygon \<Rightarrow>
     (case Extrusion_extrude_height s1 of
        Inl e \<Rightarrow> Inl e
      | Inr height \<Rightarrow>
     (let m = creation_extrude_polygon ext polygon height
      in
     (case Extrusion_extrude_transform s1 of
        Inl e \<Rightarrow> Inl e
      | Inr transform \<Rightarrow>
          (let m' = apply_transform ext transform m
           in Inr (store_mesh (float_array (vertices m')) (int_array (faces m'))
                    (float_array (face_normals m')) s1)))))))"

definition Extrusion_init :: "ext \<Rightarrow> primitive \<Rightarrow> (string \<times> pyval) list \<Rightarrow> error + primitive" where
  "Extrusion_init ext b kwargs =
     (let s = Primitive_init (b\<lparr>kind := Extrusion\<rparr>)
      in (case set_from_kwargs kwargs ''extrude_polygon'' (Extrusion_extrude_polygon_set ext) s of
            Inl e \<Rightarrow> Inl e
          | Inr s1 \<Rightarrow>
              (case set_from_kwargs kwargs ''extrude_transform'' Extrusion_extrude_transform_set s1 of
                 Inl e \<Rightarrow> Inl e
               | Inr s2 \<Rightarrow>
                   set_from_kwargs kwargs ''extrude_height'' Extrusion_extrude_height_set s2)))"

subsection \<open>The derived geometry\<close>

text \<open>\<^verbatim>\<open>self._create_mesh()\<close>: the method of the object's class.\<close>

definition create_mesh :: "ext \<Rightarrow> primitive \<Rightarrow> error + primitive" where
  "create_mesh ext s =
     (case kind s of
        Primitive \<Rightarrow> Primitive_create_mesh s
      | Cylinder pd \<Rightarrow> Cylinder_create_mesh ext pd s
      | Sphere ico \<Rightarrow> Sphere_create_mesh ico s
      | Box box \<Rightarrow> Box_create_mesh ext box s
      | Extrusion \<Rightarrow> Extrusion_create_mesh ext s)"

definition Primitive_faces :: "ext \<Rightarrow> primitive \<Rightarrow> error + pyval \<times> primitive" where
  "Primitive_faces ext s =
     (let stored = Cache_getitem (cache s) ''faces''
      in if is_shape stored [-1, 3] then Inr (stored, s)
         else (case create_mesh ext s of
                 Inl e \<Rightarrow> Inl e
               | Inr s' \<Rightarrow> Inr (Cache_getitem (cache s') ''faces'', s')))"

definition Primitive_faces_set :: "pyval \<Rightarrow> primitive \<Rightarrow> error + primitive" where
  "Primitive_faces_set v s =
     Inr (log_emit WARNING ''Primitive faces are immutable! Not setting!'' [] s)"

definition Primitive_vertices :: "ext \<Rightarrow> primitive \<Rightarrow> error + pyval \<times> primitive" where
  "Primitive_vertices ext s =
     (let stored = Cache_getitem (cache s) ''vertices''
      in if is_shape stored [-1, 3] then Inr (stored, s)
         else (case create_mesh ext s of
                 Inl e \<Rightarrow> Inl e
               | Inr s' \<Rightarrow> Inr (Cache_getitem (cache s') ''vertices'', s')))"

definition Primitive_vertices_set :: "pyval \<Rightarrow> primitive \<Rightarrow> error + primitive" where
  "Primitive_vertices_set v s =
     (if v \<noteq> Py N
      then Inr (log_emit WARNING ''Primitive vertices are immutable! Not setting!'' [] s)
      else Inr s)"

definition Primitive_face_normals :: "ext \<Rightarrow> primitive \<Rightarrow> error + pyval \<times> primitive" where
  "Primitive_face_normals ext s =
     (let stored = Cache_getitem (cache s) ''face_normals''
      in if is_shape stored [-1, 3] then Inr (stored, s)
         else (case create_mesh ext s of
                 Inl e \<Rightarrow> Inl e
               | Inr s' \<Rightarrow> Inr (Cache_getitem (cache s') ''face_normals'', s')))"

definition Primitive_face_normals_set :: "pyval \<Rightarrow> primitive \<Rightarrow> error + primitive" where
  "Primitive_face_normals_set v s =
     (if v \<noteq> Py N
      then Inr (log_emit WARNING ''Primitive face normals are immutable! Not setting!'' [] s)
      else Inr s)"

section \<open>States and collaborators for the examples\<close>

text \<open>
  A primitive of class \<open>k\<close> with store \<open>d\<close>, an empty cache and no log record: with the
  empty store, the object as \<^verbatim>\<open>_Primitive.__init__\<close> leaves it.
\<close>

definition blank :: "kind \<Rightarrow> DataStore \<Rightarrow> primitive" where
  "blank k d = \<lparr>kind = k, data = d, cache = Map.empty, validate = False, logs = []\<rparr>"

text \<open>
  The geometry and the log records of \<open>s0\<close>, written to \<open>s\<close>: how a run of
  \<^verbatim>\<open>_create_mesh\<close> on one object is replayed on another with the same parameters.
\<close>

definition transplant :: "primitive \<Rightarrow> primitive \<Rightarrow> primitive" where
  "transplant s0 s =
     store_mesh (Cache_getitem (cache s0) ''vertices'') (Cache_getitem (cache s0) ''faces'')
       (Cache_getitem (cache s0) ''face_normals'') (s\<lparr>logs := logs s @ logs s0\<rparr>)"

text \<open>
  Modelled from the spec: the unit box of \<^verbatim>\<open>creation.box\<close> is not in the module. The spec
  gives it 8 vertices, 12 triangles and their normals, centred at the origin.
\<close>

definition unit_box :: mesh where
  "unit_box =
     \<lparr>vertices =
        [[-1/2, -1/2, -1/2], [-1/2, -1/2, 1/2], [-1/2, 1/2, -1/2], [-1/2, 1/2, 1/2],
         [1/2, -1/2, -1/2], [1/2, -1/2, 1/2], [1/2, 1/2, -1/2], [1/2, 1/2, 1/2]],
      faces =
        [[1, 3, 0], [4, 1, 0], [0, 3, 2], [2, 4, 0], [1, 7, 3], [5, 1, 4],
         [5, 7, 1], [3, 7, 2], [6, 4, 2], [2, 7, 6], [6, 5, 4], [7, 5, 6]],
      face_normals =
        [[-1, 0, 0], [0, -1, 0], [-1, 0, 0], [0, 0, -1], [0, 0, 1], [0, -1, 0],
         [0, 0, 1], [0, 1, 0], [0, 0, -1], [0, 1, 0], [1, 0, 0], [1, 0, 0]]\<rparr>"

text \<open>
  The rows of a matrix of numbers none of which is NaN. The collaborators of the model
  answer with real numbers and cannot raise; the examples compute on such matrices.
\<close>

definition finite_rows :: "pyval \<Rightarrow> real list list option" where
  "finite_rows a = (case numeric a of Inr (M A) \<Rightarrow> those (map those A) | _ \<Rightarrow> None)"

text \<open>
  Modelled from the spec: \<^verbatim>\<open>points.transform_points\<close> is not in the module. It applies a
  4x4 affine transform to a sequence of 3D points. Where the points or the matrix are
  not such numbers, or the matrix has not four rows, the example answers with the
  origin for every point.
\<close>

definition example_transform_points :: "pyval \<Rightarrow> pyval \<Rightarrow> real list list" where
  "example_transform_points pts matrix =
     (case pts of
        Arr2 rows \<Rightarrow>
          (case finite_rows pts of
             Some ps \<Rightarrow>
               (case finite_rows matrix of
                  Some m \<Rightarrow>
                    (if length m = 4
                     then map (\<lambda>p. map (\<lambda>row. inner (take 3 row) p + row ! 3) (take 3 m)) ps
                     else map (\<lambda>p. [0, 0, 0]) rows)
                | None \<Rightarrow> map (\<lambda>p. [0, 0, 0]) rows)
           | None \<Rightarrow> map (\<lambda>p. [0, 0, 0]) rows)
      | _ \<Rightarrow> [])"

text \<open>
  Modelled from the spec: \<^verbatim>\<open>triangles.windings_aligned\<close> is not in the module. It reports,
  for each triangle, whether the normal that the right-hand rule gives its winding
  points the way of the given normal.
\<close>

fun cross :: "real list \<Rightarrow> real list \<Rightarrow> real list" where
  "cross [a1, a2, a3] [b1, b2, b3] = [a2 * b3 - a3 * b2, a3 * b1 - a1 * b3, a1 * b2 - a2 * b1]"
| "cross _ _ = []"

fun winding_aligned :: "real list list \<Rightarrow> real list \<Rightarrow> bool" where
  "winding_aligned [a, b, c] n =
     (0 < inner (cross (map2 (\<lambda>x y. x - y) b a) (map2 (\<lambda>x y. x - y) c a)) n)"
| "winding_aligned _ n = False"

definition example_windings_aligned :: "real list list list \<Rightarrow> pyval \<Rightarrow> bool list" where
  "example_windings_aligned triangles normals =
     (case numeric normals of
        Inr (M ns) \<Rightarrow>
          map2 (\<lambda>t n. case those n of Some n' \<Rightarrow> winding_aligned t n' | None \<Rightarrow> False) triangles ns
      | _ \<Rightarrow> [])"

text \<open>
  Modelled from the spec: \<^verbatim>\<open>util.convert_like\<close> is not in the module. It presents a
  length-1 array as a scalar when the default is a scalar.
\<close>

definition example_convert_like :: "pyval \<Rightarrow> pyval \<Rightarrow> pyval" where
  "example_convert_like v dv =
     (case dv of
        Py d \<Rightarrow> (case v of Arr1 [x] \<Rightarrow> Py x | _ \<Rightarrow> v)
      | _ \<Rightarrow> v)"

text \<open>
  Modelled from the spec: \<^verbatim>\<open>creation.validate_polygon\<close> is not in the module. It returns
  a polygon or fails with a domain error.
\<close>

definition example_validate_polygon :: "pyval \<Rightarrow> error + pyval" where
  "example_validate_polygon v =
     (case v of
        Py (P p) \<Rightarrow> if 3 \<le> length p then Inr v else Inl (ValueError ''Input not a polygon!'')
      | _ \<Rightarrow> Inl (ValueError ''Input not a polygon!''))"

definition example_apply_transform :: "pyval \<Rightarrow> mesh \<Rightarrow> mesh" where
  "example_apply_transform matrix m =
     m\<lparr>vertices := example_transform_points (float_array (vertices m)) matrix\<rparr>"

text \<open>
  One choice of collaborators. Every generator answers with the unit box: a cylinder of
  four sections and the extrusion of a square are boxes.
\<close>

definition example_ext :: ext where
  "example_ext =
     \<lparr>creation_icosphere = (\<lambda>n. unit_box),
      creation_box = unit_box,
      creation_cylinder = (\<lambda>r h n. unit_box),
      creation_extrude_polygon = (\<lambda>p h. unit_box),
      validate_polygon = example_validate_polygon,
      apply_transform = example_apply_transform,
      transform_points = example_transform_points,
      windings_aligned = example_windings_aligned,
      convert_like = example_convert_like\<rparr>"

section \<open>Notions of the statements\<close>

text \<open>The claim that an operation fails with an error of class \<^verbatim>\<open>NotImplementedError\<close>.\<close>

definition raises_NotImplementedError :: "error + 'a \<Rightarrow> bool" where
  "raises_NotImplementedError r =
     (case r of Inl (NotImplementedError msg) \<Rightarrow> True | _ \<Rightarrow> False)"

text \<open>
  The three getters \<^verbatim>\<open>faces\<close>, \<^verbatim>\<open>vertices\<close> and \<^verbatim>\<open>face_normals\<close> are the same code up
  to the name of the slot; this is their common form.
\<close>

definition read_slot :: "ext \<Rightarrow> string \<Rightarrow> primitive \<Rightarrow> error + pyval \<times> primitive" where
  "read_slot ext key s =
     (let stored = Cache_getitem (cache s) key
      in if is_shape stored [-1, 3] then Inr (stored, s)
         else (case create_mesh ext s of
                 Inl e \<Rightarrow> Inl e
               | Inr s' \<Rightarrow> Inr (Cache_getitem (cache s') key, s')))"


text \<open>
  The words of the spec for \<^verbatim>\<open>slide\<close>: the translation by \<open>(x, y, z)\<close> and the product of
  two 4x4 matrices, entry by entry. A transform is a list of four rows of four numbers.
\<close>

definition spec_translate :: "real \<Rightarrow> real \<Rightarrow> real \<Rightarrow> real list list" where
  "spec_translate x y z = [[1, 0, 0, x], [0, 1, 0, y], [0, 0, 1, z], [0, 0, 0, 1]]"

definition spec_mat_mul :: "real list list \<Rightarrow> real list list \<Rightarrow> real list list" where
  "spec_mat_mul A B = map (\<lambda>i. map (\<lambda>j. \<Sum>k < 4. A ! i ! k * B ! k ! j) [0..<4]) [0..<4]"

definition is_4x4 :: "real list list \<Rightarrow> bool" where
  "is_4x4 A = (length A = 4 \<and> list_all (\<lambda>r. length r = 4) A)"

text \<open>
  The slot \<^verbatim>\<open>volume\<close> of the cache is absent, or it holds what the body of the property
  computes from the parameters of the object as they are now.
\<close>

definition volume_cache_valid :: "(primitive \<Rightarrow> error + pyval) \<Rightarrow> primitive \<Rightarrow> bool" where
  "volume_cache_valid body s =
     (case cache s ''volume'' of None \<Rightarrow> True | Some v \<Rightarrow> body s = Inr v)"

text \<open>
  A triangle mesh as the generators of the library answer: three or more points of three
  coordinates, one or more index triples, and one normal of three components for each
  triple.
\<close>

definition triangle_mesh :: "mesh \<Rightarrow> bool" where
  "triangle_mesh m =
     (3 \<le> length (vertices m) \<and> list_all (\<lambda>p. length p = 3) (vertices m) \<and>
      faces m \<noteq> [] \<and> list_all (\<lambda>f. length f = 3) (faces m) \<and>
      length (face_normals m) = length (faces m) \<and>
      list_all (\<lambda>n. length n = 3) (face_normals m))"

text \<open>
  The template that an object of the class keeps (\<^verbatim>\<open>_unit_sphere\<close>, \<^verbatim>\<open>_unit_box\<close>) is a
  triangle mesh. The other classes keep none.
\<close>

definition templates_shaped :: "kind \<Rightarrow> bool" where
  "templates_shaped k =
     (case k of Sphere ico \<Rightarrow> triangle_mesh ico | Box box \<Rightarrow> triangle_mesh box | _ \<Rightarrow> True)"

text \<open>
  Collaborators that answer with well-shaped geometry: every generator answers with a
  triangle mesh, \<open>apply_transform\<close> makes a triangle mesh of a triangle mesh, and
  \<open>transform_points\<close> answers an array of 3D points with an array of 3D points.
\<close>

definition collaborators_shaped :: "ext \<Rightarrow> bool" where
  "collaborators_shaped ext =
     ((\<forall>n. triangle_mesh (creation_icosphere ext n)) \<and>
      triangle_mesh (creation_box ext) \<and>
      (\<forall>r h n. triangle_mesh (creation_cylinder ext r h n)) \<and>
      (\<forall>p h. triangle_mesh (creation_extrude_polygon ext p h)) \<and>
      (\<forall>t m. triangle_mesh m \<longrightarrow> triangle_mesh (apply_transform ext t m)) \<and>
      (\<forall>pts t. is_shape pts [-1, 3] \<longrightarrow>
         is_shape (float_array (transform_points ext pts t)) [-1, 3]))"



section \<open>Evaluation rules\<close>

lemmas np_defs = np_multiply_def np_binop_def np_dot_def np_eye_def np_ones_def np_zeros_def
  bc1_def bc2_def inner_def float_array_def int_array_def slice33_def index_rows_def index1_def
  fliplr_def is_shape_def DataStore_getitem_def Cache_getitem_def asanyarray_float64_def
  as_float64_def
  np_add_def np_map_def np_product_def setitem2_def misaligned_def inner64_def

lemmas state_defs = blank_def log_emit_def store_mesh_def cache_setitem_def data_setitem_def
  data_clear_def DataStore_setitem_def Primitive_init_def set_from_kwargs_def

lemmas example_defs = example_ext_def unit_box_def example_transform_points_def
  example_windings_aligned_def example_convert_like_def example_validate_polygon_def
  example_apply_transform_def finite_rows_def

section \<open>A run of the synthesis depends on the class and the parameters only\<close>

lemma Sphere_create_mesh_blank:
  "Sphere_create_mesh ico s =
     (case Sphere_create_mesh ico (blank k (data s)) of Inl e \<Rightarrow> Inl e | Inr s0 \<Rightarrow> Inr (transplant s0 s))"
  by (simp add: Sphere_create_mesh_def blank_def transplant_def Sphere_sphere_radius_def
      Sphere_sphere_center_def store_mesh_def cache_setitem_def Cache_getitem_def Let_def
      split: sum.splits)

lemma Box_create_mesh_blank:
  "Box_create_mesh ext box s =
     (case Box_create_mesh ext box (blank k (data s)) of Inl e \<Rightarrow> Inl e | Inr s0 \<Rightarrow> Inr (transplant s0 s))"
  by (simp add: Box_create_mesh_def blank_def transplant_def Box_box_extents_def
      Box_box_transform_def store_mesh_def cache_setitem_def Cache_getitem_def Let_def log_emit_def
      split: sum.splits list.splits)

lemma Extrusion_create_mesh_blank:
  "Extrusion_create_mesh ext s =
     (case Extrusion_create_mesh ext (blank k (data s)) of Inl e \<Rightarrow> Inl e | Inr s0 \<Rightarrow> Inr (transplant s0 s))"
  by (simp add: Extrusion_create_mesh_def blank_def transplant_def Extrusion_extrude_polygon_def
      Extrusion_extrude_height_def Extrusion_extrude_transform_def
      store_mesh_def cache_setitem_def Cache_getitem_def Let_def log_emit_def
      split: sum.splits list.splits)

lemma Cylinder_create_mesh_blank:
  "Cylinder_create_mesh ext pd s =
     (case Cylinder_create_mesh ext pd (blank k (data s)) of Inl e \<Rightarrow> Inl e | Inr s0 \<Rightarrow> Inr (transplant s0 s))"
  by (simp add: Cylinder_create_mesh_def blank_def transplant_def
      store_mesh_def cache_setitem_def Cache_getitem_def Let_def log_emit_def
      split: sum.splits list.splits)

lemma kind_blank [simp]: "kind (blank k d) = k" and data_blank [simp]: "data (blank k d) = d"
  by (simp_all add: blank_def)

lemma create_mesh_blank:
  "create_mesh ext s =
     (case create_mesh ext (blank (kind s) (data s)) of Inl e \<Rightarrow> Inl e | Inr s0 \<Rightarrow> Inr (transplant s0 s))"
proof (cases "kind s")
  case Primitive
  then show ?thesis by (simp add: create_mesh_def Primitive_create_mesh_def)
next
  case (Cylinder pd)
  then show ?thesis
    using Cylinder_create_mesh_blank [of ext pd s "kind s"] by (simp add: create_mesh_def)
next
  case (Sphere ico)
  then show ?thesis
    using Sphere_create_mesh_blank [of ico s "kind s"] by (simp add: create_mesh_def)
next
  case (Box box)
  then show ?thesis
    using Box_create_mesh_blank [of ext box s "kind s"] by (simp add: create_mesh_def)
next
  case Extrusion
  then show ?thesis
    using Extrusion_create_mesh_blank [of ext s "kind s"] by (simp add: create_mesh_def)
qed

lemma transplant_fields [simp]:
  "kind (transplant s0 s) = kind s" "data (transplant s0 s) = data s"
  "validate (transplant s0 s) = validate s" "logs (transplant s0 s) = logs s @ logs s0"
  by (simp_all add: transplant_def store_mesh_def cache_setitem_def)

lemma cache_transplant:
  "cache (transplant s0 s) =
     (cache s)(''vertices'' \<mapsto> Cache_getitem (cache s0) ''vertices'',
               ''faces'' \<mapsto> Cache_getitem (cache s0) ''faces'',
               ''face_normals'' \<mapsto> Cache_getitem (cache s0) ''face_normals'')"
  by (simp add: transplant_def store_mesh_def cache_setitem_def)

text \<open>What a run of the synthesis leaves: the three slots, and nothing else changed but the log.\<close>

lemma create_mesh_result:
  assumes "create_mesh ext s = Inr s'"
  obtains s0 where "create_mesh ext (blank (kind s) (data s)) = Inr s0" and "s' = transplant s0 s"
  using assms create_mesh_blank [of ext s] by (auto split: sum.splits)


section \<open>Box: the winding repair\<close>

lemma collect_length: "collect xs = Inr ys \<Longrightarrow> length ys = length xs"
  by (induction xs arbitrary: ys) (auto split: sum.splits)

lemma index_rows_length: "index_rows xs rows = Inr ys \<Longrightarrow> length ys = length rows"
  using collect_length [of "map (\<lambda>row. collect (map (index1 xs) row)) rows" ys]
  by (simp add: index_rows_def)

lemma windings_aligned_update [simp]:
  "windings_aligned (ext\<lparr>windings_aligned := w\<rparr>) = w"
  "transform_points (ext\<lparr>windings_aligned := w\<rparr>) = transform_points ext"
  by simp_all

lemma box_winding_independent:
  assumes run: "Box_create_mesh ext box s = Inr s'"
    and agree: "\<And>t n. length t \<le> 1 \<Longrightarrow> w t n = windings_aligned ext t n"
  shows "Box_create_mesh (ext\<lparr>windings_aligned := w\<rparr>) box s = Inr s'"
proof -
  have "index_rows verts (take 1 (faces box)) = Inr triangles \<Longrightarrow>
        w triangles n = windings_aligned ext triangles n" for verts triangles n
    using index_rows_length [of verts "take 1 (faces box)" triangles] agree by simp
  then show ?thesis
    using run
    by (auto simp: Box_create_mesh_def Let_def split: sum.splits list.splits)
qed

text \<open>
  C1. \<^verbatim>\<open>Box._create_mesh\<close> decides once. Whenever it returns, the winding test was called
  with the triangle of the first face of the transformed vertices (at most one triangle)
  and the first transformed normal; the first entry of its answer decides: when it is
  true the cache gets the faces of the template as they are, when it is false it gets
  every face with its three columns in reverse order. No other face is tested: a
  winding test that answers differently on two or more triangles gives the same mesh.
\<close>

theorem box_winding_single_decision:
  assumes "Box_create_mesh ext box s = Inr s'"
  shows "\<exists>extents scaled transform verts rot nt normals triangles normal1 aligned rest.
      Box_box_extents s = Inr extents \<and>
      np_multiply (float_array (vertices box)) extents = Inr scaled \<and>
      Box_box_transform s = Inr transform \<and>
      verts = transform_points ext scaled transform \<and>
      slice33 transform = Inr rot \<and>
      np_dot rot (np_T (float_array (face_normals box))) = Inr nt \<and>
      normals = np_T nt \<and>
      index_rows verts (take 1 (faces box)) = Inr triangles \<and>
      length triangles \<le> 1 \<and>
      take1 normals = Inr normal1 \<and>
      windings_aligned ext triangles normal1 = aligned # rest \<and>
      Cache_getitem (cache s') ''vertices'' = float_array verts \<and>
      Cache_getitem (cache s') ''face_normals'' = normals \<and>
      Cache_getitem (cache s') ''faces'' =
        int_array (if aligned then faces box else map rev (faces box)) \<and>
      (\<forall>w. (\<forall>t n. length t \<le> 1 \<longrightarrow> w t n = windings_aligned ext t n) \<longrightarrow>
         Box_create_mesh (ext\<lparr>windings_aligned := w\<rparr>) box s = Inr s')"
proof -
  let ?s1 = "log_emit DEBUG ''Creating mesh for box _Primitive'' [] s"
  have g: "Box_box_extents ?s1 = Box_box_extents s" "Box_box_transform ?s1 = Box_box_transform s"
    by (simp_all add: Box_box_extents_def Box_box_transform_def log_emit_def)
  from assms obtain extents where e: "Box_box_extents s = Inr extents"
    by (auto simp: Box_create_mesh_def Let_def g split: sum.splits)
  from assms e obtain scaled where sc: "np_multiply (float_array (vertices box)) extents = Inr scaled"
    by (auto simp: Box_create_mesh_def Let_def g split: sum.splits)
  from assms e sc obtain transform where t: "Box_box_transform s = Inr transform"
    by (auto simp: Box_create_mesh_def Let_def g split: sum.splits)
  define verts where "verts = transform_points ext scaled transform"
  from assms e sc t obtain rot where r: "slice33 transform = Inr rot"
    by (auto simp: Box_create_mesh_def Let_def g split: sum.splits)
  from assms e sc t r obtain nt where nt: "np_dot rot (np_T (float_array (face_normals box))) = Inr nt"
    by (auto simp: Box_create_mesh_def Let_def g split: sum.splits)
  from assms e sc t r nt obtain triangles where tr: "index_rows verts (take 1 (faces box)) = Inr triangles"
    by (auto simp: Box_create_mesh_def Let_def g verts_def split: sum.splits)
  from assms e sc t r nt tr obtain normal1 where n1: "take1 (np_T nt) = Inr normal1"
    by (auto simp: Box_create_mesh_def Let_def g verts_def split: sum.splits)
  from assms e sc t r nt tr n1 obtain aligned rest
    where w: "windings_aligned ext triangles normal1 = aligned # rest"
    by (auto simp: Box_create_mesh_def Let_def g verts_def split: sum.splits list.splits)
  have s': "s' = store_mesh (float_array verts)
      (int_array (if \<not> aligned then fliplr (faces box) else faces box)) (np_T nt) ?s1"
    using assms e sc t r nt tr n1 w by (simp add: Box_create_mesh_def Let_def g verts_def)
  have len: "length triangles \<le> 1"
    using index_rows_length [OF tr] by simp
  have c: "Cache_getitem (cache s') ''vertices'' = float_array verts"
    "Cache_getitem (cache s') ''face_normals'' = np_T nt"
    "Cache_getitem (cache s') ''faces'' = int_array (if aligned then faces box else map rev (faces box))"
    by (simp_all add: s' store_mesh_def cache_setitem_def Cache_getitem_def fliplr_def)
  have ind: "\<forall>w. (\<forall>t n. length t \<le> 1 \<longrightarrow> w t n = windings_aligned ext t n) \<longrightarrow>
         Box_create_mesh (ext\<lparr>windings_aligned := w\<rparr>) box s = Inr s'"
    using box_winding_independent [OF assms] by blast
  show ?thesis
    using e sc t r nt tr len n1 w c verts_def ind by blast
qed

text \<open>
  A run with the example collaborators: extents \<open>(1, -1, 1)\<close> mirror the unit box within
  the plane of its first face. The one test answers false and all twelve faces are
  reversed; a winding test that answers true for every triangle of a longer list gives
  the same mesh.
\<close>

theorem box_winding_single_decision_witness:
  "\<exists>s'. Box_create_mesh example_ext unit_box
           (blank (Box unit_box) [(''box_extents'', Arr1 [F 1, F (- 1), F 1])]) = Inr s' \<and>
     Cache_getitem (cache s') ''faces'' = int_array (map rev (faces unit_box)) \<and>
     (\<exists>triangles normal1 rest.
        length triangles \<le> 1 \<and> windings_aligned example_ext triangles normal1 = False # rest) \<and>
     Box_create_mesh
       (example_ext\<lparr>windings_aligned :=
          (\<lambda>t n. if length t \<le> 1 then example_windings_aligned t n else replicate (length t) True)\<rparr>)
       unit_box (blank (Box unit_box) [(''box_extents'', Arr1 [F 1, F (- 1), F 1])]) = Inr s'"
proof -
  let ?s = "blank (Box unit_box) [(''box_extents'', Arr1 [F 1, F (- 1), F 1])]"
  let ?s' = "store_mesh (float_array (map (\<lambda>v. [v ! 0, - (v ! 1), v ! 2]) (vertices unit_box)))
            (int_array (map rev (faces unit_box))) (float_array (face_normals unit_box))
            (log_emit DEBUG ''Creating mesh for box _Primitive'' [] ?s)"
  let ?w = "\<lambda>t n. if length t \<le> 1 then example_windings_aligned t n else replicate (length t) True"
  have run: "Box_create_mesh example_ext unit_box ?s = Inr ?s'"
    by (simp add: Box_create_mesh_def Box_box_extents_def Box_box_transform_def np_defs state_defs
        example_defs Let_def upt_conv_Cons numeral_3_eq_3)
  from box_winding_single_decision [OF run]
  obtain triangles normal1 aligned rest where
    len: "length triangles \<le> 1" and
    w: "windings_aligned example_ext triangles normal1 = aligned # rest" and
    f: "Cache_getitem (cache ?s') ''faces'' =
        int_array (if aligned then faces unit_box else map rev (faces unit_box))" and
    ind: "\<forall>w. (\<forall>t n. length t \<le> 1 \<longrightarrow> w t n = windings_aligned example_ext t n) \<longrightarrow>
         Box_create_mesh (example_ext\<lparr>windings_aligned := w\<rparr>) unit_box ?s = Inr ?s'"
    by blast
  have "\<not> aligned"
    using f by (auto simp: store_mesh_def cache_setitem_def Cache_getitem_def int_array_def unit_box_def split: if_splits)
  with w have w': "windings_aligned example_ext triangles normal1 = False # rest"
    by simp
  have other: "Box_create_mesh (example_ext\<lparr>windings_aligned := ?w\<rparr>) unit_box ?s = Inr ?s'"
    by (rule ind [rule_format]) (simp add: example_ext_def)
  have flipped: "Cache_getitem (cache ?s') ''faces'' = int_array (map rev (faces unit_box))"
    by (simp add: store_mesh_def cache_setitem_def Cache_getitem_def)
  from len w' have tested: "\<exists>triangles normal1 rest.
        length triangles \<le> 1 \<and> windings_aligned example_ext triangles normal1 = False # rest"
    by blast
  show ?thesis
    by (rule exI [of _ ?s']) (intro conjI run flipped tested other)
qed

text \<open>
  A run in which the one test passes and another face would fail it: with extents
  \<open>(-1, 1, 1)\<close> the box is mirrored along the normal of its first face. The triangle of
  the first face keeps its winding, the faces are stored as they are, and the second
  face is not aligned with its normal.
\<close>

lemma box_reflection_along_first_normal:
  "\<exists>s'. Box_create_mesh example_ext unit_box
           (blank (Box unit_box) [(''box_extents'', Arr1 [F (- 1), F 1, F 1])]) = Inr s' \<and>
     Cache_getitem (cache s') ''faces'' = int_array (faces unit_box) \<and>
     Cache_getitem (cache s') ''vertices'' =
       float_array (map (\<lambda>v. [- (v ! 0), v ! 1, v ! 2]) (vertices unit_box)) \<and>
     Cache_getitem (cache s') ''face_normals'' = float_array (face_normals unit_box) \<and>
     \<not> winding_aligned
         (map (\<lambda>i. map (\<lambda>v. [- (v ! 0), v ! 1, v ! 2]) (vertices unit_box) ! nat i)
            (faces unit_box ! 1))
         (face_normals unit_box ! 1)"
  by (simp add: Box_create_mesh_def Box_box_extents_def Box_box_transform_def np_defs state_defs
        example_defs Let_def upt_conv_Cons numeral_3_eq_3)

section \<open>Facts about the store\<close>

lemma map_of_DataStore_setitem:
  "map_of (DataStore_setitem key v d) = (map_of d)(key \<mapsto> tracked_array v)"
  by (simp add: DataStore_setitem_def update_conv')

lemma DataStore_getitem_setitem:
  "DataStore_getitem (DataStore_setitem key v d) key' =
     (if key' = key then tracked_array v else DataStore_getitem d key')"
  by (simp add: DataStore_getitem_def map_of_DataStore_setitem)

lemma data_data_setitem [simp]: "data (data_setitem key v s) = DataStore_setitem key v (data s)"
  and cache_data_setitem [simp]: "cache (data_setitem key v s) = Map.empty"
  and kind_data_setitem [simp]: "kind (data_setitem key v s) = kind s"
  by (simp_all add: data_setitem_def)

lemma DataStore_getitem_absent: "map_of d key = None \<Longrightarrow> DataStore_getitem d key = Py N"
  by (simp add: DataStore_getitem_def)

lemma tracked_array_not_None [simp]: "tracked_array v \<noteq> Py N"
  by (cases v) simp_all

lemma np_eye_4:
  "np_eye 4 = Arr2 [[F 1, F 0, F 0, F 0], [F 0, F 1, F 0, F 0], [F 0, F 0, F 1, F 0],
                    [F 0, F 0, F 0, F 1]]"
  by (simp add: np_eye_def upt_conv_Cons)

lemma np_ones_3: "np_ones 3 = Arr1 [F 1, F 1, F 1]"
  by (simp add: np_ones_def numeral_3_eq_3)

lemma is_shape_None [simp]: "\<not> is_shape (Py x) shape"
  by (simp add: is_shape_def)

lemma nums_map_F [simp]: "nums (map F xs) = Inr (map Some xs)"
  by (induction xs) simp_all

lemma nums2_map_F [simp]: "nums2 (map (map F) A) = Inr (map (map Some) A)"
  by (induction A) simp_all


lemma of_float_Some [simp]:
  "map of_float (map Some xs) = map F xs"
  "map (map of_float) (map (map Some) A) = map (map F) A"
  by (simp_all add: o_def)

lemma those_eq_Some: "those xs = Some ys \<longleftrightarrow> xs = map Some ys"
  by (induction xs arbitrary: ys) (auto split: option.splits)

lemma those_map_Some [simp]: "those (map Some xs) = Some xs"
  by (simp add: those_eq_Some)

lemma inner64_Some [simp]: "inner64 (map Some xs) (map Some ys) = Some (inner xs ys)"
proof -
  have e: "map2 (float_op (\<lambda>x y. x * y)) (map Some xs) (map Some ys) =
      map Some (map2 (\<lambda>x y. x * y) xs ys)"
    by (induction xs arbitrary: ys) (auto simp: zip_Cons1 split: list.splits)
  show ?thesis
    unfolding inner64_def inner_def e those_map_Some by simp
qed

section \<open>None and NaN\<close>

text \<open>
  Where an array of dtype float64 is made of \<^verbatim>\<open>None\<close> it holds NaN: the setters that
  convert with \<^verbatim>\<open>np.asanyarray\<close> accept \<^verbatim>\<open>None\<close>, and the setters of the transforms then
  refuse its shape. \<^verbatim>\<open>float\<close> and the arithmetic raise on \<^verbatim>\<open>None\<close>, and NaN goes through
  the arithmetic.
\<close>

lemma None_as_float64:
  "asanyarray_float64 (Py N) = Inr (Py NaN)"
  "asanyarray_float64 (Arr1 [N, I 1, F 2]) = Inr (Arr1 [NaN, F 1, F 2])"
  "Box_box_extents_set (Py N) s = Inr (data_setitem ''box_extents'' (Py NaN) s)"
  "Sphere_sphere_center_set (Py N) s = Inr (data_setitem ''center'' (Py NaN) s)"
  "Box_box_transform_set (Py N) s = Inl (ValueError ''Matrix must be (4,4)!'')"
  "Extrusion_extrude_transform_set (Py N) s = Inl (ValueError ''Matrix must be (4,4)!'')"
  "Box_box_extents (data_setitem ''box_extents'' (Py NaN) s) = Inr (np_ones 3)"
  by (simp_all add: asanyarray_float64_def as_float64_def Box_box_extents_set_def
      Sphere_sphere_center_set_def Box_box_transform_set_def Extrusion_extrude_transform_set_def
      Box_box_extents_def DataStore_getitem_setitem is_shape_def)

lemma NaN_in_arithmetic:
  "py_float (Py N) = Inl (TypeError ''float() argument must be a string or a number'')"
  "py_float (Py NaN) = Inr None"
  "py_int (Py NaN) = Inl (ValueError ''cannot convert float NaN to integer'')"
  "np_multiply (Arr1 [F 1, F 2]) (Py N) =
     Inl (TypeError ''float() argument must be a string or a number'')"
  "np_multiply (Arr1 [F 1, F 2]) (Arr1 [NaN, F 3]) = Inr (Arr1 [NaN, F 6])"
  "np_product (Arr1 [NaN, F 0]) = Inr None"
  "np_dot (Arr1 [F 0, F 1]) (Arr1 [NaN, F 1]) = Inr (Py NaN)"
  by (simp_all add: py_int_def np_multiply_def np_binop_def bc1_def np_product_def np_dot_def
      inner64_def)

section \<open>Shapes of the synthesised arrays\<close>

lemma is_shape_Arr2:
  "is_shape (Arr2 rows) [-1, 3] \<longleftrightarrow> rows \<noteq> [] \<and> length (hd rows) = 3"
  by (cases rows) (simp_all add: is_shape_def)








lemma num_of_float [simp]: "num (of_float x) = Inr x"
  by (cases x) simp_all

lemma nums_of_float [simp]: "nums (map of_float xs) = Inr xs"
  by (induction xs) simp_all

lemma nums2_of_float [simp]: "nums2 (map (map of_float) A) = Inr A"
  by (induction A) simp_all

















text \<open>
  The constructors leave an object whose template is what the generator answered, so
  with well-shaped collaborators every constructed object has a well-shaped template.
\<close>

lemma set_from_kwargs_kind:
  assumes "set_from_kwargs kwargs key setter s = Inr s'"
    and "\<And>v t. setter v s = Inr t \<Longrightarrow> kind t = kind s"
  shows "kind s' = kind s"
  using assms by (auto simp: set_from_kwargs_def split: option.splits)

lemma setters_keep_kind:
  "Sphere_sphere_radius_set v s = Inr t \<Longrightarrow> kind t = kind s"
  "Sphere_sphere_center_set v s = Inr t \<Longrightarrow> kind t = kind s"
  "Box_box_extents_set v s = Inr t \<Longrightarrow> kind t = kind s"
  "Box_box_transform_set v s = Inr t \<Longrightarrow> kind t = kind s"
  "Box_box_center_set v s = Inr t \<Longrightarrow> kind t = kind s"
  "Extrusion_extrude_polygon_set ext v s = Inr t \<Longrightarrow> kind t = kind s"
  "Extrusion_extrude_transform_set v s = Inr t \<Longrightarrow> kind t = kind s"
  "Extrusion_extrude_height_set v s = Inr t \<Longrightarrow> kind t = kind s"
  by (auto simp: Sphere_sphere_radius_set_def Sphere_sphere_center_set_def Box_box_extents_set_def
      Box_box_transform_set_def Box_box_center_set_def Extrusion_extrude_polygon_set_def
      Extrusion_extrude_transform_set_def Extrusion_extrude_height_set_def
      split: sum.splits if_splits)

lemma kind_Primitive_init [simp]: "kind (Primitive_init b) = kind b"
  by (simp add: Primitive_init_def data_clear_def)

lemma Sphere_init_kind:
  assumes "Sphere_init ext b kwargs = Inr s"
  shows "\<exists>n. kind s = Sphere (creation_icosphere ext n)"
proof -
  from assms obtain n s1 where
    1: "set_from_kwargs kwargs ''sphere_radius'' Sphere_sphere_radius_set
          (Primitive_init (b\<lparr>kind := Sphere (creation_icosphere ext n)\<rparr>)) = Inr s1"
    and 2: "set_from_kwargs kwargs ''sphere_center'' Sphere_sphere_center_set s1 = Inr s"
    by (auto simp: Sphere_init_def Let_def split: sum.splits)
  have "kind s1 = Sphere (creation_icosphere ext n)"
    using set_from_kwargs_kind [OF 1] by (simp add: setters_keep_kind)
  moreover have "kind s = kind s1"
    using 2 by (rule set_from_kwargs_kind) (simp add: setters_keep_kind)
  ultimately show ?thesis by auto
qed

lemma Box_init_kind:
  assumes "Box_init ext b kwargs = Inr s"
  shows "kind s = Box (creation_box ext)"
proof -
  from assms obtain s1 s2 where
    1: "set_from_kwargs kwargs ''box_extents'' Box_box_extents_set
          (Primitive_init (b\<lparr>kind := Box (creation_box ext)\<rparr>)) = Inr s1"
    and 2: "set_from_kwargs kwargs ''box_transform'' Box_box_transform_set s1 = Inr s2"
    and 3: "set_from_kwargs kwargs ''box_center'' Box_box_center_set s2 = Inr s"
    by (auto simp: Box_init_def Let_def split: sum.splits)
  have "kind s1 = Box (creation_box ext)"
    using set_from_kwargs_kind [OF 1] by (simp add: setters_keep_kind)
  moreover have "kind s2 = kind s1"
    using 2 by (rule set_from_kwargs_kind) (simp add: setters_keep_kind)
  moreover have "kind s = kind s2"
    using 3 by (rule set_from_kwargs_kind) (simp add: setters_keep_kind)
  ultimately show ?thesis by simp
qed

lemma Extrusion_init_kind:
  assumes "Extrusion_init ext b kwargs = Inr s"
  shows "kind s = Extrusion"
proof -
  from assms obtain s1 s2 where
    1: "set_from_kwargs kwargs ''extrude_polygon'' (Extrusion_extrude_polygon_set ext)
          (Primitive_init (b\<lparr>kind := Extrusion\<rparr>)) = Inr s1"
    and 2: "set_from_kwargs kwargs ''extrude_transform'' Extrusion_extrude_transform_set s1 = Inr s2"
    and 3: "set_from_kwargs kwargs ''extrude_height'' Extrusion_extrude_height_set s2 = Inr s"
    by (auto simp: Extrusion_init_def Let_def split: sum.splits)
  have "kind s1 = Extrusion"
    using set_from_kwargs_kind [OF 1] by (simp add: setters_keep_kind)
  moreover have "kind s2 = kind s1"
    using 2 by (rule set_from_kwargs_kind) (simp add: setters_keep_kind)
  moreover have "kind s = kind s2"
    using 3 by (rule set_from_kwargs_kind) (simp add: setters_keep_kind)
  ultimately show ?thesis by simp
qed

lemma constructors_shape_templates:
  assumes "collaborators_shaped ext"
  shows "Sphere_init ext b kwargs = Inr s \<Longrightarrow> templates_shaped (kind s)"
    and "Box_init ext b kwargs = Inr s \<Longrightarrow> templates_shaped (kind s)"
    and "Extrusion_init ext b kwargs = Inr s \<Longrightarrow> templates_shaped (kind s)"
    and "templates_shaped (kind (Cylinder_init ext b kwargs))"
proof -
  show "templates_shaped (kind s)" if "Sphere_init ext b kwargs = Inr s"
    using Sphere_init_kind [OF that] assms by (auto simp: templates_shaped_def collaborators_shaped_def)
  show "templates_shaped (kind s)" if "Box_init ext b kwargs = Inr s"
    using Box_init_kind [OF that] assms by (simp add: templates_shaped_def collaborators_shaped_def)
  show "templates_shaped (kind s)" if "Extrusion_init ext b kwargs = Inr s"
    using Extrusion_init_kind [OF that] by (simp add: templates_shaped_def)
  show "templates_shaped (kind (Cylinder_init ext b kwargs))"
    by (simp add: Cylinder_init_def Let_def templates_shaped_def)
qed






section \<open>Reading the derived geometry\<close>

lemma getters_read_slot:
  "Primitive_faces ext = read_slot ext ''faces''"
  "Primitive_vertices ext = read_slot ext ''vertices''"
  "Primitive_face_normals ext = read_slot ext ''face_normals''"
  by (simp_all add: fun_eq_iff read_slot_def Primitive_faces_def Primitive_vertices_def
      Primitive_face_normals_def)











section \<open>Assignments to the derived geometry\<close>

lemma create_mesh_same_geometry:
  assumes "kind t = kind s" and "data t = data s" and "cache t = cache s"
  shows "map_sum id (\<lambda>u. Cache_getitem (cache u) key) (create_mesh ext t) =
        map_sum id (\<lambda>u. Cache_getitem (cache u) key) (create_mesh ext s)"
proof (cases "create_mesh ext (blank (kind s) (data s))")
  case (Inl e)
  then show ?thesis
    using create_mesh_blank [of ext t] create_mesh_blank [of ext s] assms by simp
next
  case (Inr s0)
  then have "create_mesh ext t = Inr (transplant s0 t)" "create_mesh ext s = Inr (transplant s0 s)"
    using create_mesh_blank [of ext t] create_mesh_blank [of ext s] assms by simp_all
  then show ?thesis by (simp add: cache_transplant assms(3))
qed

lemma read_slot_same_geometry:
  assumes "kind t = kind s" and "data t = data s" and "cache t = cache s"
  shows "map_sum id fst (read_slot ext key t) = map_sum id fst (read_slot ext key s)"
proof (cases "is_shape (Cache_getitem (cache s) key) [-1, 3]")
  case True
  then show ?thesis by (simp add: read_slot_def assms(3))
next
  case False
  show ?thesis
    using create_mesh_same_geometry [OF assms, of key ext] False
    by (cases "create_mesh ext t"; cases "create_mesh ext s") (simp_all add: read_slot_def assms(3))
qed

lemma reads_same_geometry:
  assumes "kind t = kind s" and "data t = data s" and "cache t = cache s"
  shows "map_sum id fst (Primitive_vertices ext t) = map_sum id fst (Primitive_vertices ext s)"
    and "map_sum id fst (Primitive_faces ext t) = map_sum id fst (Primitive_faces ext s)"
    and "map_sum id fst (Primitive_face_normals ext t) = map_sum id fst (Primitive_face_normals ext s)"
  unfolding getters_read_slot by (rule read_slot_same_geometry [OF assms])+

lemma log_emit_fields [simp]:
  "kind (log_emit l m a s) = kind s" "data (log_emit l m a s) = data s"
  "cache (log_emit l m a s) = cache s" "logs (log_emit l m a s) = logs s @ [(l, m, a)]"
  by (simp_all add: log_emit_def)

lemma reads_after_log_emit:
  "map_sum id fst (Primitive_vertices ext (log_emit l m a s)) = map_sum id fst (Primitive_vertices ext s)"
  "map_sum id fst (Primitive_faces ext (log_emit l m a s)) = map_sum id fst (Primitive_faces ext s)"
  "map_sum id fst (Primitive_face_normals ext (log_emit l m a s)) =
     map_sum id fst (Primitive_face_normals ext s)"
  by (rule reads_same_geometry; simp)+

text \<open>
  C3, as the code has it. An assignment to \<^verbatim>\<open>vertices\<close>, \<^verbatim>\<open>faces\<close> or \<^verbatim>\<open>face_normals\<close> never
  raises and leaves the class, the parameters and the cache as they are, so that every
  later read of the geometry gives what it gave before. An assignment to \<^verbatim>\<open>faces\<close> always
  logs one warning; an assignment to \<^verbatim>\<open>vertices\<close> or \<^verbatim>\<open>face_normals\<close> logs one warning
  unless the value assigned is \<^verbatim>\<open>None\<close>, which logs nothing.
\<close>

theorem geometry_assignment_is_ignored:
  "(\<exists>s'. Primitive_vertices_set v s = Inr s' \<and>
       kind s' = kind s \<and> data s' = data s \<and> cache s' = cache s \<and>
       logs s' = logs s @
         (if v = Py N then [] else [(WARNING, ''Primitive vertices are immutable! Not setting!'', [])]) \<and>
       map_sum id fst (Primitive_vertices ext s') = map_sum id fst (Primitive_vertices ext s) \<and>
       map_sum id fst (Primitive_faces ext s') = map_sum id fst (Primitive_faces ext s) \<and>
       map_sum id fst (Primitive_face_normals ext s') = map_sum id fst (Primitive_face_normals ext s)) \<and>
   (\<exists>s'. Primitive_faces_set v s = Inr s' \<and>
       kind s' = kind s \<and> data s' = data s \<and> cache s' = cache s \<and>
       logs s' = logs s @ [(WARNING, ''Primitive faces are immutable! Not setting!'', [])] \<and>
       map_sum id fst (Primitive_vertices ext s') = map_sum id fst (Primitive_vertices ext s) \<and>
       map_sum id fst (Primitive_faces ext s') = map_sum id fst (Primitive_faces ext s) \<and>
       map_sum id fst (Primitive_face_normals ext s') = map_sum id fst (Primitive_face_normals ext s)) \<and>
   (\<exists>s'. Primitive_face_normals_set v s = Inr s' \<and>
       kind s' = kind s \<and> data s' = data s \<and> cache s' = cache s \<and>
       logs s' = logs s @
         (if v = Py N then [] else [(WARNING, ''Primitive face normals are immutable! Not setting!'', [])]) \<and>
       map_sum id fst (Primitive_vertices ext s') = map_sum id fst (Primitive_vertices ext s) \<and>
       map_sum id fst (Primitive_faces ext s') = map_sum id fst (Primitive_faces ext s) \<and>
       map_sum id fst (Primitive_face_normals ext s') = map_sum id fst (Primitive_face_normals ext s))"
proof (intro conjI)
  show "\<exists>s'. Primitive_vertices_set v s = Inr s' \<and>
       kind s' = kind s \<and> data s' = data s \<and> cache s' = cache s \<and>
       logs s' = logs s @
         (if v = Py N then [] else [(WARNING, ''Primitive vertices are immutable! Not setting!'', [])]) \<and>
       map_sum id fst (Primitive_vertices ext s') = map_sum id fst (Primitive_vertices ext s) \<and>
       map_sum id fst (Primitive_faces ext s') = map_sum id fst (Primitive_faces ext s) \<and>
       map_sum id fst (Primitive_face_normals ext s') = map_sum id fst (Primitive_face_normals ext s)"
    by (cases "v = Py N") (simp_all add: Primitive_vertices_set_def reads_after_log_emit)
  show "\<exists>s'. Primitive_faces_set v s = Inr s' \<and>
       kind s' = kind s \<and> data s' = data s \<and> cache s' = cache s \<and>
       logs s' = logs s @ [(WARNING, ''Primitive faces are immutable! Not setting!'', [])] \<and>
       map_sum id fst (Primitive_vertices ext s') = map_sum id fst (Primitive_vertices ext s) \<and>
       map_sum id fst (Primitive_faces ext s') = map_sum id fst (Primitive_faces ext s) \<and>
       map_sum id fst (Primitive_face_normals ext s') = map_sum id fst (Primitive_face_normals ext s)"
    by (simp add: Primitive_faces_set_def reads_after_log_emit)
  show "\<exists>s'. Primitive_face_normals_set v s = Inr s' \<and>
       kind s' = kind s \<and> data s' = data s \<and> cache s' = cache s \<and>
       logs s' = logs s @
         (if v = Py N then [] else [(WARNING, ''Primitive face normals are immutable! Not setting!'', [])]) \<and>
       map_sum id fst (Primitive_vertices ext s') = map_sum id fst (Primitive_vertices ext s) \<and>
       map_sum id fst (Primitive_faces ext s') = map_sum id fst (Primitive_faces ext s) \<and>
       map_sum id fst (Primitive_face_normals ext s') = map_sum id fst (Primitive_face_normals ext s)"
    by (cases "v = Py N") (simp_all add: Primitive_face_normals_set_def reads_after_log_emit)
qed

text \<open>The claim as stated fails: assigning \<^verbatim>\<open>None\<close> to \<^verbatim>\<open>vertices\<close> logs no warning.\<close>

theorem geometry_assignment_counterexample:
  "map_sum id logs (Primitive_vertices_set (Py N) (blank Primitive [])) = Inr []"
  by (simp add: Primitive_vertices_set_def blank_def)

section \<open>The abstract synthesis\<close>

text \<open>
  C8, as the code has it. \<^verbatim>\<open>_Primitive._create_mesh\<close> fails with a \<^verbatim>\<open>ValueError\<close> whose
  message is \<^verbatim>\<open>Primitive doesn't define mesh creation!\<close>; so does the synthesis of an
  object of the base class, and so does every read of its geometry from an empty cache.
\<close>

theorem abstract_synthesis_fails:
  "Primitive_create_mesh s = Inl (ValueError ''Primitive doesn't define mesh creation!'') \<and>
   create_mesh ext (s\<lparr>kind := Primitive\<rparr>) =
     Inl (ValueError ''Primitive doesn't define mesh creation!'') \<and>
   Primitive_vertices ext (blank Primitive d) =
     Inl (ValueError ''Primitive doesn't define mesh creation!'') \<and>
   Primitive_faces ext (blank Primitive d) =
     Inl (ValueError ''Primitive doesn't define mesh creation!'') \<and>
   Primitive_face_normals ext (blank Primitive d) =
     Inl (ValueError ''Primitive doesn't define mesh creation!'')"
  by (simp add: Primitive_create_mesh_def create_mesh_def Primitive_vertices_def
      Primitive_faces_def Primitive_face_normals_def blank_def Cache_getitem_def is_shape_def)

text \<open>The claim as stated fails: the error is not of class \<^verbatim>\<open>NotImplementedError\<close>.\<close>

theorem abstract_synthesis_counterexample:
  "\<not> raises_NotImplementedError (Primitive_create_mesh (blank Primitive []))"
  by (simp add: raises_NotImplementedError_def Primitive_create_mesh_def)


section \<open>Extrusion: the required parameters\<close>

lemma Extrusion_init_height_absent:
  assumes "map_of kwargs ''extrude_height'' = None" and "Extrusion_init ext b kwargs = Inr s"
  shows "map_of (data s) ''extrude_height'' = None"
  using assms
  by (auto simp: Extrusion_init_def set_from_kwargs_def Primitive_init_def data_clear_def
      Extrusion_extrude_polygon_set_def Extrusion_extrude_transform_set_def
      map_of_DataStore_setitem Let_def split: option.splits sum.splits if_splits)

lemma Extrusion_init_polygon_absent:
  assumes "map_of kwargs ''extrude_polygon'' = None" and "Extrusion_init ext b kwargs = Inr s"
  shows "map_of (data s) ''extrude_polygon'' = None"
  using assms
  by (auto simp: Extrusion_init_def set_from_kwargs_def Primitive_init_def data_clear_def
      Extrusion_extrude_height_set_def Extrusion_extrude_transform_set_def
      map_of_DataStore_setitem Let_def split: option.splits sum.splits if_splits)

text \<open>
  C7. While the store has no entry for \<^verbatim>\<open>extrude_height\<close> (or \<^verbatim>\<open>extrude_polygon\<close>), reading
  the property raises the error whose message says that the height (the polygon) is
  not specified; this is the state of an Extrusion constructed without that keyword.
  After \<^verbatim>\<open>extrude_height\<close> is set to a value that \<^verbatim>\<open>float\<close> accepts, reading it returns
  the float of that value. The error that the spec calls MissingParameterError is, in
  the code, a \<^verbatim>\<open>ValueError\<close>.
\<close>

theorem extrusion_required_parameters:
  "(map_of (data s) ''extrude_height'' = None \<longrightarrow>
      Extrusion_extrude_height s = Inl (ValueError ''extrude height not specified!'')) \<and>
   (map_of (data s) ''extrude_polygon'' = None \<longrightarrow>
      Extrusion_extrude_polygon s = Inl (ValueError ''extrude polygon not specified!'')) \<and>
   (\<forall>s1. map_of kwargs ''extrude_height'' = None \<and> Extrusion_init ext b kwargs = Inr s1 \<longrightarrow>
      Extrusion_extrude_height s1 = Inl (ValueError ''extrude height not specified!'')) \<and>
   (\<forall>s1. map_of kwargs ''extrude_polygon'' = None \<and> Extrusion_init ext b kwargs = Inr s1 \<longrightarrow>
      Extrusion_extrude_polygon s1 = Inl (ValueError ''extrude polygon not specified!'')) \<and>
   (\<forall>h. py_float v = Inr h \<longrightarrow>
      (\<exists>s'. Extrusion_extrude_height_set v s = Inr s' \<and>
            Extrusion_extrude_height s' = Inr (Py (of_float h))))"
proof (intro conjI allI impI)
  show "Extrusion_extrude_height s = Inl (ValueError ''extrude height not specified!'')"
    if "map_of (data s) ''extrude_height'' = None"
    using that by (simp add: Extrusion_extrude_height_def DataStore_getitem_absent)
  show "Extrusion_extrude_polygon s = Inl (ValueError ''extrude polygon not specified!'')"
    if "map_of (data s) ''extrude_polygon'' = None"
    using that by (simp add: Extrusion_extrude_polygon_def DataStore_getitem_absent)
  show "Extrusion_extrude_height s1 = Inl (ValueError ''extrude height not specified!'')"
    if "map_of kwargs ''extrude_height'' = None \<and> Extrusion_init ext b kwargs = Inr s1" for s1
    using Extrusion_init_height_absent [of kwargs ext b s1] that
    by (simp add: Extrusion_extrude_height_def DataStore_getitem_absent)
  show "Extrusion_extrude_polygon s1 = Inl (ValueError ''extrude polygon not specified!'')"
    if "map_of kwargs ''extrude_polygon'' = None \<and> Extrusion_init ext b kwargs = Inr s1" for s1
    using Extrusion_init_polygon_absent [of kwargs ext b s1] that
    by (simp add: Extrusion_extrude_polygon_def DataStore_getitem_absent)
  show "\<exists>s'. Extrusion_extrude_height_set v s = Inr s' \<and>
      Extrusion_extrude_height s' = Inr (Py (of_float h))"
    if "py_float v = Inr h" for h
    using that
    by (simp add: Extrusion_extrude_height_set_def Extrusion_extrude_height_def
        DataStore_getitem_setitem)
qed

text \<open>
  An Extrusion constructed without keywords: both reads fail, and after the height is
  set to 5 it reads as 5.
\<close>

theorem extrusion_required_parameters_witness:
  "Extrusion_init example_ext (blank Primitive []) [] = Inr (blank Extrusion []) \<and>
   Extrusion_extrude_height (blank Extrusion []) =
     Inl (ValueError ''extrude height not specified!'') \<and>
   Extrusion_extrude_polygon (blank Extrusion []) =
     Inl (ValueError ''extrude polygon not specified!'') \<and>
   (\<exists>s'. Extrusion_extrude_height_set (Py (F 5)) (blank Extrusion []) = Inr s' \<and>
         Extrusion_extrude_height s' = Inr (Py (F 5)))"
proof -
  have i: "Extrusion_init example_ext (blank Primitive []) [] = Inr (blank Extrusion [])"
    by (simp add: Extrusion_init_def state_defs)
  have a: "map_of (data (blank Extrusion [])) ''extrude_height'' = None"
    "map_of (data (blank Extrusion [])) ''extrude_polygon'' = None"
    "map_of ([] :: (string \<times> pyval) list) ''extrude_height'' = None"
    "map_of ([] :: (string \<times> pyval) list) ''extrude_polygon'' = None"
    "py_float (Py (F 5)) = Inr (Some 5)"
    by simp_all
  note t = extrusion_required_parameters
      [of "blank Extrusion []" "[]" example_ext "blank Primitive []" "Py (F 5)"]
  have h: "Extrusion_extrude_height (blank Extrusion []) =
      Inl (ValueError ''extrude height not specified!'')"
    using t [THEN conjunct1] a(1) by (rule mp)
  have p: "Extrusion_extrude_polygon (blank Extrusion []) =
      Inl (ValueError ''extrude polygon not specified!'')"
    using t [THEN conjunct2, THEN conjunct1] a(2) by (rule mp)
  from t [THEN conjunct2, THEN conjunct2, THEN conjunct2, THEN conjunct2, rule_format, OF a(5)]
  have s: "\<exists>s'. Extrusion_extrude_height_set (Py (F 5)) (blank Extrusion []) = Inr s' \<and>
      Extrusion_extrude_height s' = Inr (Py (F 5))"
    by simp
  show ?thesis
    by (intro conjI i h p s)
qed

section \<open>Defaults at read time\<close>

text \<open>
  C10. The getters \<^verbatim>\<open>box_extents\<close>, \<^verbatim>\<open>box_transform\<close> and \<^verbatim>\<open>extrude_transform\<close> never fail.
  When the store has no entry for the key, or the entry has not the shape \<open>(3,)\<close>
  (\<open>(4,4)\<close> for the transforms), they return the vector of three ones (the 4x4 identity
  matrix). Construction writes no default: after construction without keywords the
  store is empty, and the default comes from the getter.
\<close>

theorem getters_apply_defaults:
  "(\<exists>v. Box_box_extents s = Inr v) \<and>
   (\<exists>v. Box_box_transform s = Inr v) \<and>
   (\<exists>v. Extrusion_extrude_transform s = Inr v) \<and>
   (map_of (data s) ''box_extents'' = None \<or>
    \<not> is_shape (DataStore_getitem (data s) ''box_extents'') [3] \<longrightarrow>
      Box_box_extents s = Inr (Arr1 [F 1, F 1, F 1])) \<and>
   (map_of (data s) ''box_transform'' = None \<or>
    \<not> is_shape (DataStore_getitem (data s) ''box_transform'') [4, 4] \<longrightarrow>
      Box_box_transform s =
        Inr (Arr2 [[F 1, F 0, F 0, F 0], [F 0, F 1, F 0, F 0], [F 0, F 0, F 1, F 0],
                   [F 0, F 0, F 0, F 1]])) \<and>
   (map_of (data s) ''extrude_transform'' = None \<or>
    np_shape (DataStore_getitem (data s) ''extrude_transform'') \<noteq> [4, 4] \<longrightarrow>
      Extrusion_extrude_transform s =
        Inr (Arr2 [[F 1, F 0, F 0, F 0], [F 0, F 1, F 0, F 0], [F 0, F 0, F 1, F 0],
                   [F 0, F 0, F 0, F 1]])) \<and>
   Box_init ext b [] = Inr (blank (Box (creation_box ext)) [] \<lparr>logs := logs b\<rparr>) \<and>
   Extrusion_init ext b [] = Inr (blank Extrusion [] \<lparr>logs := logs b\<rparr>)"
  by (auto simp: Box_box_extents_def Box_box_transform_def Extrusion_extrude_transform_def
      np_eye_4 np_ones_3 DataStore_getitem_absent Let_def Box_init_def Extrusion_init_def
      state_defs)

text \<open>
  Stores with an entry of the wrong shape and stores with no entry: the getters return
  the defaults.
\<close>

theorem getters_apply_defaults_witness:
  "Box_box_extents (blank (Box unit_box) [(''box_extents'', Arr1 [F 2, F 3])]) =
     Inr (Arr1 [F 1, F 1, F 1]) \<and>
   Box_box_extents (blank (Box unit_box) []) = Inr (Arr1 [F 1, F 1, F 1]) \<and>
   Box_box_transform (blank (Box unit_box) [(''box_transform'', Arr1 [F 2, F 3])]) =
     Inr (Arr2 [[F 1, F 0, F 0, F 0], [F 0, F 1, F 0, F 0], [F 0, F 0, F 1, F 0],
                [F 0, F 0, F 0, F 1]]) \<and>
   Box_box_transform (blank (Box unit_box) []) =
     Inr (Arr2 [[F 1, F 0, F 0, F 0], [F 0, F 1, F 0, F 0], [F 0, F 0, F 1, F 0],
                [F 0, F 0, F 0, F 1]]) \<and>
   Extrusion_extrude_transform (blank Extrusion [(''extrude_transform'', Arr2 [[F 1, F 2], [F 3, F 4]])]) =
     Inr (Arr2 [[F 1, F 0, F 0, F 0], [F 0, F 1, F 0, F 0], [F 0, F 0, F 1, F 0],
                [F 0, F 0, F 0, F 1]]) \<and>
   Extrusion_extrude_transform (blank Extrusion []) =
     Inr (Arr2 [[F 1, F 0, F 0, F 0], [F 0, F 1, F 0, F 0], [F 0, F 0, F 1, F 0],
                [F 0, F 0, F 0, F 1]])"
proof -
  let ?b1 = "blank (Box unit_box) [(''box_extents'', Arr1 [F 2, F 3])]"
  let ?b2 = "blank (Box unit_box) [(''box_transform'', Arr1 [F 2, F 3])]"
  let ?e1 = "blank Extrusion [(''extrude_transform'', Arr2 [[F 1, F 2], [F 3, F 4]])]"
  have a: "map_of (data ?b1) ''box_extents'' = None \<or>
           \<not> is_shape (DataStore_getitem (data ?b1) ''box_extents'') [3]"
    "map_of (data (blank (Box unit_box) [])) ''box_extents'' = None \<or>
           \<not> is_shape (DataStore_getitem (data (blank (Box unit_box) [])) ''box_extents'') [3]"
    "map_of (data ?b2) ''box_transform'' = None \<or>
           \<not> is_shape (DataStore_getitem (data ?b2) ''box_transform'') [4, 4]"
    "map_of (data (blank (Box unit_box) [])) ''box_transform'' = None \<or>
           \<not> is_shape (DataStore_getitem (data (blank (Box unit_box) [])) ''box_transform'') [4, 4]"
    "map_of (data ?e1) ''extrude_transform'' = None \<or>
           np_shape (DataStore_getitem (data ?e1) ''extrude_transform'') \<noteq> [4, 4]"
    "map_of (data (blank Extrusion [])) ''extrude_transform'' = None \<or>
           np_shape (DataStore_getitem (data (blank Extrusion [])) ''extrude_transform'') \<noteq> [4, 4]"
    by (simp_all add: is_shape_def DataStore_getitem_def)
  note g = getters_apply_defaults [THEN conjunct2, THEN conjunct2, THEN conjunct2]
  show ?thesis
    by (intro conjI
        g [of ?b1, THEN conjunct1, rule_format, OF a(1)]
        g [of "blank (Box unit_box) []", THEN conjunct1, rule_format, OF a(2)]
        g [of ?b2, THEN conjunct2, THEN conjunct1, rule_format, OF a(3)]
        g [of "blank (Box unit_box) []", THEN conjunct2, THEN conjunct1, rule_format, OF a(4)]
        g [of ?e1, THEN conjunct2, THEN conjunct2, THEN conjunct1, rule_format, OF a(5)]
        g [of "blank Extrusion []", THEN conjunct2, THEN conjunct2, THEN conjunct1, rule_format, OF a(6)])
qed


section \<open>The schema of the attribute store\<close>

lemma map_of_DataStore_update:
  "map_of (DataStore_update items d) key =
     (case map_of (rev items) key of None \<Rightarrow> map_of d key | Some v \<Rightarrow> Some (tracked_array v))"
proof (induction items arbitrary: d)
  case Nil
  then show ?case by (simp add: DataStore_update_def)
next
  case (Cons x xs)
  obtain k v where x: "x = (k, v)" by (cases x)
  have "DataStore_update (x # xs) d = DataStore_update xs (DataStore_setitem k v d)"
    by (simp add: DataStore_update_def x)
  then show ?case
    using Cons.IH [of "DataStore_setitem k v d"]
    by (simp add: x map_of_DataStore_setitem map_add_def split: option.splits)
qed

lemma map_of_fold_overlay:
  "map_of (fold (overlay ext defaults) kwargs acc) key =
     (case map_of (rev kwargs) key of
        None \<Rightarrow> map_of acc key
      | Some v \<Rightarrow>
          (case map_of defaults key of
             None \<Rightarrow> map_of acc key
           | Some dv \<Rightarrow> Some (tracked_array (convert_like ext v dv))))"
proof (induction kwargs arbitrary: acc)
  case Nil
  then show ?case by simp
next
  case (Cons x xs)
  obtain k v where x: "x = (k, v)" by (cases x)
  show ?case
    using Cons.IH [of "overlay ext defaults x acc"]
    by (auto simp: x overlay_def map_of_DataStore_setitem map_add_def split: option.splits)
qed

lemma map_of_rev_distinct: "distinct (map fst xs) \<Longrightarrow> map_of (rev xs) = map_of xs"
  by (induction xs) (auto simp: map_add_def fun_eq_iff split: option.splits dest: map_of_SomeD
      intro: rev_image_eqI)

lemma PrimitiveAttributes_init_store:
  "PrimitiveAttributes_init ext d defaults kwargs =
     [''_data'' \<mapsto> Store (fold (overlay ext defaults) kwargs (DataStore_update defaults d)),
      ''_defaults'' \<mapsto> Store defaults]"
  by (simp add: PrimitiveAttributes_init_def Let_def)

text \<open>
  C4, as the code has it. \<^verbatim>\<open>__setattr__\<close> tests the key for an underscore before it looks
  at the schema. A key without underscore that is not a key of the defaults raises
  the \<^verbatim>\<open>ValueError\<close>; one that is a key of the defaults is written to the store. A key
  with an underscore is never checked against the schema: it is bound as an ordinary
  attribute of the object (the three names that the type guards apart). Construction
  applies the defaults first and then the keywords: a key of the defaults ends with the
  keyword's value converted like the default when there is such a keyword and with the
  default otherwise, and a keyword that is not a key of the defaults changes nothing.
\<close>

theorem attribute_store_schema:
  "(CHR ''_'' \<notin> set key \<and> a ''_defaults'' = Some (Store defaults) \<and> map_of defaults key = None \<longrightarrow>
      PrimitiveAttributes_setattr key v a = Inl (ValueError ''Only default attributes {} can be set!'')) \<and>
   (CHR ''_'' \<notin> set key \<and> a ''_defaults'' = Some (Store defaults) \<and> map_of defaults key \<noteq> None \<and>
    a ''_data'' = Some (Store d) \<longrightarrow>
      PrimitiveAttributes_setattr key v a = Inr (a(''_data'' \<mapsto> Store (DataStore_setitem key v d)))) \<and>
   (CHR ''_'' \<in> set key \<and> key \<noteq> ''__class__'' \<and> key \<noteq> ''__dict__'' \<and> key \<noteq> ''__weakref__'' \<longrightarrow>
      PrimitiveAttributes_setattr key v a = Inr (a(key \<mapsto> Plain v))) \<and>
   (\<exists>d'. PrimitiveAttributes_init ext d defaults kwargs =
            [''_data'' \<mapsto> Store d', ''_defaults'' \<mapsto> Store defaults] \<and>
      (distinct (map fst defaults) \<and> distinct (map fst kwargs) \<longrightarrow>
         (\<forall>k. map_of d' k =
            (case map_of defaults k of
               None \<Rightarrow> map_of d k
             | Some dv \<Rightarrow>
                 (case map_of kwargs k of
                    None \<Rightarrow> Some (tracked_array dv)
                  | Some kv \<Rightarrow> Some (tracked_array (convert_like ext kv dv)))))))"
proof (intro conjI impI)
  show "PrimitiveAttributes_setattr key v a = Inl (ValueError ''Only default attributes {} can be set!'')"
    if "CHR ''_'' \<notin> set key \<and> a ''_defaults'' = Some (Store defaults) \<and> map_of defaults key = None"
    using that by (simp add: PrimitiveAttributes_setattr_def the_store_def)
  show "PrimitiveAttributes_setattr key v a = Inr (a(''_data'' \<mapsto> Store (DataStore_setitem key v d)))"
    if "CHR ''_'' \<notin> set key \<and> a ''_defaults'' = Some (Store defaults) \<and> map_of defaults key \<noteq> None \<and>
        a ''_data'' = Some (Store d)"
    using that by (auto simp: PrimitiveAttributes_setattr_def the_store_def)
  show "PrimitiveAttributes_setattr key v a = Inr (a(key \<mapsto> Plain v))"
    if "CHR ''_'' \<in> set key \<and> key \<noteq> ''__class__'' \<and> key \<noteq> ''__dict__'' \<and> key \<noteq> ''__weakref__''"
    using that by (simp add: PrimitiveAttributes_setattr_def object_setattr_def)
  let ?d' = "fold (overlay ext defaults) kwargs (DataStore_update defaults d)"
  have "\<forall>k. map_of ?d' k =
            (case map_of defaults k of
               None \<Rightarrow> map_of d k
             | Some dv \<Rightarrow>
                 (case map_of kwargs k of
                    None \<Rightarrow> Some (tracked_array dv)
                  | Some kv \<Rightarrow> Some (tracked_array (convert_like ext kv dv))))"
    if "distinct (map fst defaults) \<and> distinct (map fst kwargs)"
    using that
    by (simp add: map_of_fold_overlay map_of_DataStore_update map_of_rev_distinct
        split: option.splits)
  then show "\<exists>d'. PrimitiveAttributes_init ext d defaults kwargs =
            [''_data'' \<mapsto> Store d', ''_defaults'' \<mapsto> Store defaults] \<and>
      (distinct (map fst defaults) \<and> distinct (map fst kwargs) \<longrightarrow>
         (\<forall>k. map_of d' k =
            (case map_of defaults k of
               None \<Rightarrow> map_of d k
             | Some dv \<Rightarrow>
                 (case map_of kwargs k of
                    None \<Rightarrow> Some (tracked_array dv)
                  | Some kv \<Rightarrow> Some (tracked_array (convert_like ext kv dv))))))"
    using PrimitiveAttributes_init_store [of ext d defaults kwargs] by blast
qed

text \<open>
  The claim as stated fails: \<^verbatim>\<open>foo_bar\<close> is not a key of the schema of a cylinder, and
  setting it raises nothing.
\<close>

theorem attribute_store_schema_counterexample:
  "map_of Cylinder_defaults ''foo_bar'' = None \<and>
   PrimitiveAttributes_setattr ''foo_bar'' (Py (F 1))
     (PrimitiveAttributes_init example_ext [] Cylinder_defaults []) =
   Inr ((PrimitiveAttributes_init example_ext [] Cylinder_defaults [])(''foo_bar'' \<mapsto> Plain (Py (F 1))))"
  by (simp add: Cylinder_defaults_def PrimitiveAttributes_setattr_def object_setattr_def)

text \<open>
  The store of a cylinder: \<^verbatim>\<open>colour\<close> is refused, \<^verbatim>\<open>radius\<close> is written, \<^verbatim>\<open>foo_bar\<close> is bound
  as an attribute, and construction with the keywords \<^verbatim>\<open>radius\<close> and \<^verbatim>\<open>colour\<close> stores the
  radius over its default, keeps the default height and ignores the colour.
\<close>

theorem attribute_store_schema_witness:
  "PrimitiveAttributes_setattr ''colour'' (Py (F 1))
     (PrimitiveAttributes_init example_ext [] Cylinder_defaults []) =
     Inl (ValueError ''Only default attributes {} can be set!'') \<and>
   (\<exists>d. PrimitiveAttributes_init example_ext [] Cylinder_defaults [] ''_data'' = Some (Store d) \<and>
      PrimitiveAttributes_setattr ''radius'' (Py (F 2))
        (PrimitiveAttributes_init example_ext [] Cylinder_defaults []) =
      Inr ((PrimitiveAttributes_init example_ext [] Cylinder_defaults [])
             (''_data'' \<mapsto> Store (DataStore_setitem ''radius'' (Py (F 2)) d)))) \<and>
   PrimitiveAttributes_setattr ''foo_bar'' (Py (F 1))
     (PrimitiveAttributes_init example_ext [] Cylinder_defaults []) =
     Inr ((PrimitiveAttributes_init example_ext [] Cylinder_defaults [])(''foo_bar'' \<mapsto> Plain (Py (F 1)))) \<and>
   (\<exists>d'. PrimitiveAttributes_init example_ext [] Cylinder_defaults
            [(''radius'', Py (F 2)), (''colour'', Py (F 7))] =
            [''_data'' \<mapsto> Store d', ''_defaults'' \<mapsto> Store Cylinder_defaults] \<and>
      map_of d' ''radius'' = Some (Arr1 [F 2]) \<and>
      map_of d' ''height'' = Some (Arr1 [F 1]) \<and>
      map_of d' ''colour'' = None)"
proof -
  define a where "a = PrimitiveAttributes_init example_ext [] Cylinder_defaults []"
  define kw where "kw = [(''radius'', Py (F 2)), (''colour'', Py (F 7))]"
  define d0 where "d0 = fold (overlay example_ext Cylinder_defaults) [] (DataStore_update Cylinder_defaults [])"
  have a1: "CHR ''_'' \<notin> set ''colour'' \<and> a ''_defaults'' = Some (Store Cylinder_defaults) \<and>
    map_of Cylinder_defaults ''colour'' = None"
    by (simp add: Cylinder_defaults_def PrimitiveAttributes_init_def a_def)
  have a2: "CHR ''_'' \<in> set ''foo_bar'' \<and> ''foo_bar'' \<noteq> ''__class__'' \<and> ''foo_bar'' \<noteq> ''__dict__'' \<and>
    ''foo_bar'' \<noteq> ''__weakref__''"
    by simp
  have a3: "distinct (map fst Cylinder_defaults) \<and> distinct (map fst kw)"
    by (simp add: Cylinder_defaults_def kw_def)
  have ad: "a ''_data'' = Some (Store d0)"
    by (simp add: a_def d0_def PrimitiveAttributes_init_def)
  have a4: "CHR ''_'' \<notin> set ''radius'' \<and> a ''_defaults'' = Some (Store Cylinder_defaults) \<and>
    map_of Cylinder_defaults ''radius'' \<noteq> None \<and> a ''_data'' = Some (Store d0)"
    using ad by (simp add: Cylinder_defaults_def PrimitiveAttributes_init_def a_def)
  have m: "map_of Cylinder_defaults ''radius'' = Some (Py (F 1))"
    "map_of Cylinder_defaults ''height'' = Some (Py (F 1))"
    "map_of Cylinder_defaults ''colour'' = None"
    "map_of kw ''radius'' = Some (Py (F 2))" "map_of kw ''height'' = None"
    "convert_like example_ext (Py (F 2)) (Py (F 1)) = Py (F 2)"
    by (simp_all add: Cylinder_defaults_def example_ext_def example_convert_like_def kw_def)
  note inst = attribute_store_schema [where a = a and defaults = Cylinder_defaults
      and ext = example_ext and kwargs = kw]
  have 1: "PrimitiveAttributes_setattr ''colour'' (Py (F 1)) a =
     Inl (ValueError ''Only default attributes {} can be set!'')"
    using inst [where key = "''colour''" and v = "Py (F 1)" and d = "[]", THEN conjunct1] a1
    by (rule mp)
  have "PrimitiveAttributes_setattr ''radius'' (Py (F 2)) a =
     Inr (a(''_data'' \<mapsto> Store (DataStore_setitem ''radius'' (Py (F 2)) d0)))"
    using inst [where key = "''radius''" and v = "Py (F 2)" and d = d0,
        THEN conjunct2, THEN conjunct1] a4
    by (rule mp)
  with ad have 2: "\<exists>d. a ''_data'' = Some (Store d) \<and>
      PrimitiveAttributes_setattr ''radius'' (Py (F 2)) a =
      Inr (a(''_data'' \<mapsto> Store (DataStore_setitem ''radius'' (Py (F 2)) d)))"
    by blast
  have 3: "PrimitiveAttributes_setattr ''foo_bar'' (Py (F 1)) a = Inr (a(''foo_bar'' \<mapsto> Plain (Py (F 1))))"
    using inst [where key = "''foo_bar''" and v = "Py (F 1)" and d = "[]",
        THEN conjunct2, THEN conjunct2, THEN conjunct1] a2
    by (rule mp)
  from inst [where key = "''x''" and v = "Py (F 1)" and d = "[]",
      THEN conjunct2, THEN conjunct2, THEN conjunct2]
  obtain d' where d': "PrimitiveAttributes_init example_ext [] Cylinder_defaults kw =
            [''_data'' \<mapsto> Store d', ''_defaults'' \<mapsto> Store Cylinder_defaults]"
    and imp: "distinct (map fst Cylinder_defaults) \<and> distinct (map fst kw) \<longrightarrow> (\<forall>k. map_of d' k =
            (case map_of Cylinder_defaults k of
               None \<Rightarrow> map_of [] k
             | Some dv \<Rightarrow>
                 (case map_of kw k of
                    None \<Rightarrow> Some (tracked_array dv)
                  | Some kv \<Rightarrow> Some (tracked_array (convert_like example_ext kv dv)))))"
    by (elim exE conjE)
  from imp a3 have all: "\<And>k. map_of d' k =
            (case map_of Cylinder_defaults k of
               None \<Rightarrow> map_of [] k
             | Some dv \<Rightarrow>
                 (case map_of kw k of
                    None \<Rightarrow> Some (tracked_array dv)
                  | Some kv \<Rightarrow> Some (tracked_array (convert_like example_ext kv dv))))"
    by simp
  have r: "map_of d' ''radius'' = Some (Arr1 [F 2])" "map_of d' ''height'' = Some (Arr1 [F 1])"
    "map_of d' ''colour'' = None"
    by (simp_all add: all m)
  have 4: "\<exists>d'. PrimitiveAttributes_init example_ext [] Cylinder_defaults kw =
            [''_data'' \<mapsto> Store d', ''_defaults'' \<mapsto> Store Cylinder_defaults] \<and>
      map_of d' ''radius'' = Some (Arr1 [F 2]) \<and>
      map_of d' ''height'' = Some (Arr1 [F 1]) \<and>
      map_of d' ''colour'' = None"
    using d' r by blast
  show ?thesis
    unfolding a_def [symmetric] kw_def [symmetric]
    by (intro conjI 1 2 3 4)
qed


section \<open>Extrusion: slide\<close>

lemma length_4: "length xs = 4 \<Longrightarrow> \<exists>a b c d. xs = [a, b, c, d]"
  by (auto simp: numeral_eq_Suc length_Suc_conv)

lemma is_4x4_rows:
  assumes "is_4x4 A"
  obtains a0 a1 a2 a3 b0 b1 b2 b3 c0 c1 c2 c3 d0 d1 d2 d3 where
    "A = [[a0, a1, a2, a3], [b0, b1, b2, b3], [c0, c1, c2, c3], [d0, d1, d2, d3]]"
proof -
  from assms obtain r0 r1 r2 r3 where A: "A = [r0, r1, r2, r3]"
    using length_4 [of A] by (auto simp: is_4x4_def)
  with assms have "length r0 = 4" "length r1 = 4" "length r2 = 4" "length r3 = 4"
    by (simp_all add: is_4x4_def)
  then show thesis
    using length_4 [of r0] length_4 [of r1] length_4 [of r2] length_4 [of r3] A that by metis
qed

lemma sum_lessThan_4: "(\<Sum>k < (4::nat). f k) = f 0 + f 1 + f 2 + f 3"
  by (simp add: numeral_eq_Suc)

lemma upt_4: "[0..<4] = [0, 1, 2, 3]"
  by (simp add: upt_conv_Cons)

lemma dot_4x4:
  assumes "is_4x4 A" and "is_4x4 B"
  shows "dot (M (map (map Some) A)) (M (map (map Some) B)) = Inr (M (map (map Some) (spec_mat_mul A B)))"
proof -
  from assms(1) obtain a0 a1 a2 a3 b0 b1 b2 b3 c0 c1 c2 c3 d0 d1 d2 d3 where
    A: "A = [[a0, a1, a2, a3], [b0, b1, b2, b3], [c0, c1, c2, c3], [d0, d1, d2, d3]]"
    by (rule is_4x4_rows)
  from assms(2) obtain e0 e1 e2 e3 f0 f1 f2 f3 g0 g1 g2 g3 h0 h1 h2 h3 where
    B: "B = [[e0, e1, e2, e3], [f0, f1, f2, f3], [g0, g1, g2, g3], [h0, h1, h2, h3]]"
    by (rule is_4x4_rows)
  show ?thesis
    by (simp add: A B spec_mat_mul_def inner64_def inner_def sum_lessThan_4 upt_4)
qed

lemma is_4x4_spec_mat_mul [simp]: "is_4x4 (spec_mat_mul A B)"
  by (simp add: spec_mat_mul_def is_4x4_def upt_4)

lemma is_4x4_spec_translate [simp]: "is_4x4 (spec_translate x y z)"
  by (simp add: spec_translate_def is_4x4_def)

lemma np_shape_4x4: "is_4x4 A \<Longrightarrow> np_shape (float_array A) = [4, 4]"
  by (erule is_4x4_rows) (simp add: float_array_def)

lemma map_pyval_float_array [simp]: "map_pyval none_as_nan (float_array A) = float_array A"
  by (simp add: float_array_def o_def)

lemma asanyarray_float_array [simp]: "asanyarray_float64 (float_array A) = Inr (float_array A)"
  by (simp add: asanyarray_float64_def as_float64_def) (simp add: float_array_def)

lemma tracked_float_array [simp]: "tracked_array (float_array A) = float_array A"
  by (simp add: float_array_def)

lemma translation_by_setitem:
  "setitem2 2 3 (Some d) (np_eye 4) = Inr (float_array (spec_translate 0 0 d))"
  by (simp add: setitem2_def np_eye_4 float_array_def spec_translate_def)

lemma np_dot_4x4:
  "is_4x4 A \<Longrightarrow> is_4x4 B \<Longrightarrow> np_dot (float_array A) (float_array B) = Inr (float_array (spec_mat_mul A B))"
  using dot_4x4 [of A B] by (simp add: np_dot_def) (simp add: float_array_def)

lemma set_then_get_extrude_transform:
  assumes "is_4x4 A"
  shows "\<exists>s'. Extrusion_extrude_transform_set (float_array A) s = Inr s' \<and>
          Extrusion_extrude_transform s' = Inr (float_array A)"
  using np_shape_4x4 [OF assms]
  by (simp add: Extrusion_extrude_transform_set_def Extrusion_extrude_transform_def
      DataStore_getitem_setitem)

text \<open>
  C5. When the current transform is the 4x4 float matrix \<open>A\<close> and the distance is the
  number \<open>d\<close>, \<^verbatim>\<open>slide\<close> returns and the transform read afterwards is the matrix product
  of \<open>A\<close> and the translation by \<open>(0, 0, d)\<close>, in this order. On an Extrusion whose
  transform was never set (it reads as the identity), \<^verbatim>\<open>slide(3.0)\<close> gives a transform
  with last column \<open>(0, 0, 3, 1)\<close>, and \<^verbatim>\<open>slide(2.0)\<close> after it gives \<open>(0, 0, 5, 1)\<close>.
\<close>

theorem slide_composes:
  "(Extrusion_extrude_transform s = Inr (float_array A) \<and> is_4x4 A \<and>
    py_float distance = Inr (Some d) \<longrightarrow>
      (\<exists>s'. Extrusion_slide distance s = Inr s' \<and>
            Extrusion_extrude_transform s' =
              Inr (float_array (spec_mat_mul A (spec_translate 0 0 d))))) \<and>
   (map_of (data s) ''extrude_transform'' = None \<longrightarrow>
      (\<exists>s1 s2. Extrusion_slide (Py (F 3)) s = Inr s1 \<and>
         Extrusion_extrude_transform s1 =
           Inr (float_array [[1, 0, 0, 0], [0, 1, 0, 0], [0, 0, 1, 3], [0, 0, 0, 1]]) \<and>
         Extrusion_slide (Py (F 2)) s1 = Inr s2 \<and>
         Extrusion_extrude_transform s2 =
           Inr (float_array [[1, 0, 0, 0], [0, 1, 0, 0], [0, 0, 1, 5], [0, 0, 0, 1]])))"
proof -
  have general: "\<exists>s'. Extrusion_slide distance s = Inr s' \<and>
            Extrusion_extrude_transform s' =
              Inr (float_array (spec_mat_mul A (spec_translate 0 0 d)))"
    if "Extrusion_extrude_transform s = Inr (float_array A)" and "is_4x4 A"
      and "py_float distance = Inr (Some d)" for s A distance d
  proof -
    have "Extrusion_slide distance s =
        Extrusion_extrude_transform_set (float_array (spec_mat_mul A (spec_translate 0 0 d))) s"
      using that by (simp add: Extrusion_slide_def translation_by_setitem np_dot_4x4)
    then show ?thesis
      using set_then_get_extrude_transform [of "spec_mat_mul A (spec_translate 0 0 d)" s] by simp
  qed
  let ?I = "[[1, 0, 0, 0], [0, 1, 0, 0], [0, 0, 1, 0], [0, 0, 0, 1 :: real]]"
  let ?T3 = "[[1, 0, 0, 0], [0, 1, 0, 0], [0, 0, 1, 3], [0, 0, 0, 1 :: real]]"
  let ?T5 = "[[1, 0, 0, 0], [0, 1, 0, 0], [0, 0, 1, 5], [0, 0, 0, 1 :: real]]"
  have m: "spec_mat_mul ?I (spec_translate 0 0 3) = ?T3" "spec_mat_mul ?T3 (spec_translate 0 0 2) = ?T5"
    "is_4x4 ?I" "is_4x4 ?T3"
    by (simp_all add: spec_mat_mul_def spec_translate_def sum_lessThan_4 upt_4 is_4x4_def)
  have example: "\<exists>s1 s2. Extrusion_slide (Py (F 3)) s = Inr s1 \<and>
         Extrusion_extrude_transform s1 = Inr (float_array ?T3) \<and>
         Extrusion_slide (Py (F 2)) s1 = Inr s2 \<and>
         Extrusion_extrude_transform s2 = Inr (float_array ?T5)"
    if "map_of (data s) ''extrude_transform'' = None"
  proof -
    have "Extrusion_extrude_transform s = Inr (float_array ?I)"
      using that
      by (simp add: Extrusion_extrude_transform_def DataStore_getitem_def np_eye_4 float_array_def)
    from general [OF this m(3), of "Py (F 3)" 3]
    obtain s1 where s1: "Extrusion_slide (Py (F 3)) s = Inr s1"
      "Extrusion_extrude_transform s1 = Inr (float_array ?T3)"
      by (auto simp: m)
    from general [OF s1(2) m(4), of "Py (F 2)" 2]
    obtain s2 where "Extrusion_slide (Py (F 2)) s1 = Inr s2"
      "Extrusion_extrude_transform s2 = Inr (float_array ?T5)"
      by (auto simp: m)
    with s1 show ?thesis by blast
  qed
  from general example show ?thesis by blast
qed

text \<open>
  The two slides from the identity, and a slide by 2 of a transform that turns the
  local Z axis into the direction \<open>(0, -1, 0)\<close> and translates by \<open>(1, 2, 3)\<close>: the
  translation becomes \<open>(1, 0, 3)\<close>, along the turned axis.
\<close>

theorem slide_composes_witness:
  "(\<exists>s1 s2. Extrusion_slide (Py (F 3)) (blank Extrusion []) = Inr s1 \<and>
     Extrusion_extrude_transform s1 =
       Inr (float_array [[1, 0, 0, 0], [0, 1, 0, 0], [0, 0, 1, 3], [0, 0, 0, 1]]) \<and>
     Extrusion_slide (Py (F 2)) s1 = Inr s2 \<and>
     Extrusion_extrude_transform s2 =
       Inr (float_array [[1, 0, 0, 0], [0, 1, 0, 0], [0, 0, 1, 5], [0, 0, 0, 1]])) \<and>
   (\<exists>s'. Extrusion_slide (Py (F 2))
            (blank Extrusion
               [(''extrude_transform'',
                 float_array [[1, 0, 0, 1], [0, 0, - 1, 2], [0, 1, 0, 3], [0, 0, 0, 1]])]) = Inr s' \<and>
     Extrusion_extrude_transform s' =
       Inr (float_array (spec_mat_mul [[1, 0, 0, 1], [0, 0, - 1, 2], [0, 1, 0, 3], [0, 0, 0, 1]]
              (spec_translate 0 0 2))) \<and>
     Extrusion_extrude_transform s' =
       Inr (float_array [[1, 0, 0, 1], [0, 0, - 1, 0], [0, 1, 0, 3], [0, 0, 0, 1]]))"
proof -
  let ?A = "[[1, 0, 0, 1], [0, 0, - 1, 2], [0, 1, 0, 3], [0, 0, 0, 1 :: real]]"
  let ?s = "blank Extrusion [(''extrude_transform'', float_array ?A)]"
  have a: "map_of (data (blank Extrusion [])) ''extrude_transform'' = None"
    by simp
  have 1: "\<exists>s1 s2. Extrusion_slide (Py (F 3)) (blank Extrusion []) = Inr s1 \<and>
     Extrusion_extrude_transform s1 =
       Inr (float_array [[1, 0, 0, 0], [0, 1, 0, 0], [0, 0, 1, 3], [0, 0, 0, 1]]) \<and>
     Extrusion_slide (Py (F 2)) s1 = Inr s2 \<and>
     Extrusion_extrude_transform s2 =
       Inr (float_array [[1, 0, 0, 0], [0, 1, 0, 0], [0, 0, 1, 5], [0, 0, 0, 1]])"
    using slide_composes [of "blank Extrusion []", THEN conjunct2, rule_format, OF a] .
  have h: "Extrusion_extrude_transform ?s = Inr (float_array ?A) \<and> is_4x4 ?A \<and>
     py_float (Py (F 2)) = Inr (Some 2)"
    by (simp add: Extrusion_extrude_transform_def DataStore_getitem_def float_array_def is_4x4_def)
  have m: "spec_mat_mul ?A (spec_translate 0 0 2) =
     [[1, 0, 0, 1], [0, 0, - 1, 0], [0, 1, 0, 3], [0, 0, 0, 1]]"
    by (simp add: spec_mat_mul_def spec_translate_def sum_lessThan_4 upt_4)
  from slide_composes [of ?s ?A "Py (F 2)" 2, THEN conjunct1, rule_format, OF h]
  obtain s' where "Extrusion_slide (Py (F 2)) ?s = Inr s'"
    "Extrusion_extrude_transform s' = Inr (float_array (spec_mat_mul ?A (spec_translate 0 0 2)))"
    by blast
  then have 2: "\<exists>s'. Extrusion_slide (Py (F 2)) ?s = Inr s' \<and>
     Extrusion_extrude_transform s' = Inr (float_array (spec_mat_mul ?A (spec_translate 0 0 2))) \<and>
     Extrusion_extrude_transform s' =
       Inr (float_array [[1, 0, 0, 1], [0, 0, - 1, 0], [0, 1, 0, 3], [0, 0, 0, 1]])"
    using m by auto
  from 1 2 show ?thesis by (rule conjI)
qed


section \<open>The cached volume\<close>

lemma volume_valid_empty: "cache s = Map.empty \<Longrightarrow> volume_cache_valid body s"
  by (simp add: volume_cache_valid_def)

lemma cache_decorator_read:
  assumes "volume_cache_valid body s" and "cache_decorator ''volume'' body s = Inr (v, s')"
    and frame: "\<And>c. body (s\<lparr>cache := c\<rparr>) = body s"
  shows "body s = Inr v \<and> volume_cache_valid body s' \<and> data s' = data s \<and>
         cache_decorator ''volume'' body s' = Inr (v, s')"
proof (cases "cache s ''volume''")
  case None
  with assms(2) have b: "body s = Inr v" and s': "s' = cache_setitem ''volume'' v s"
    by (auto simp: cache_decorator_def split: sum.splits)
  have "body s' = body s"
    using frame [of "(cache s)(''volume'' \<mapsto> v)"] by (simp add: s' cache_setitem_def)
  with b show ?thesis
    by (simp add: s' volume_cache_valid_def cache_decorator_def cache_setitem_def)
next
  case (Some w)
  with assms(2) have "w = v" "s' = s" by (simp_all add: cache_decorator_def)
  with Some assms(1) show ?thesis
    by (simp add: volume_cache_valid_def cache_decorator_def)
qed

lemma Sphere_volume_body_frame:
  "data t = data s \<Longrightarrow> Sphere_volume_body t = Sphere_volume_body s"
  by (simp add: Sphere_volume_body_def Sphere_sphere_radius_def)

lemma Box_volume_body_frame:
  "data t = data s \<Longrightarrow> Box_volume_body t = Box_volume_body s"
  by (simp add: Box_volume_body_def Box_box_extents_def)

lemma create_mesh_keeps_volume:
  assumes "create_mesh ext s = Inr s'" and "volume_cache_valid body s"
    and frame: "\<And>t. data t = data s \<Longrightarrow> body t = body s"
  shows "volume_cache_valid body s'"
proof -
  from assms(1) obtain s0 where s': "s' = transplant s0 s" by (rule create_mesh_result)
  have "cache s' ''volume'' = cache s ''volume''"
    by (simp add: s' cache_transplant)
  moreover have "body s' = body s"
    by (rule frame) (simp add: s')
  ultimately show ?thesis
    using assms(2) by (simp add: volume_cache_valid_def split: option.splits)
qed

lemma set_from_kwargs_cache:
  assumes "set_from_kwargs kwargs key setter s = Inr s'" and "cache s = Map.empty"
    and "\<And>v t. setter v s = Inr t \<Longrightarrow> cache t = Map.empty"
  shows "cache s' = Map.empty"
  using assms by (auto simp: set_from_kwargs_def split: option.splits)

lemma setters_clear_cache:
  "Sphere_sphere_radius_set v s = Inr t \<Longrightarrow> cache t = Map.empty"
  "Sphere_sphere_center_set v s = Inr t \<Longrightarrow> cache t = Map.empty"
  "Box_box_extents_set v s = Inr t \<Longrightarrow> cache t = Map.empty"
  "Box_box_transform_set v s = Inr t \<Longrightarrow> cache t = Map.empty"
  "Box_box_center_set v s = Inr t \<Longrightarrow> cache t = Map.empty"
  by (auto simp: Sphere_sphere_radius_set_def Sphere_sphere_center_set_def Box_box_extents_set_def
      Box_box_transform_set_def Box_box_center_set_def split: sum.splits if_splits)

lemma cache_Primitive_init [simp]: "cache (Primitive_init b) = Map.empty"
  by (simp add: Primitive_init_def data_clear_def)

lemma Sphere_init_cache:
  assumes "Sphere_init ext b kwargs = Inr s"
  shows "cache s = Map.empty"
proof -
  from assms obtain s0 s1 where
    1: "set_from_kwargs kwargs ''sphere_radius'' Sphere_sphere_radius_set (Primitive_init s0) = Inr s1"
    and 2: "set_from_kwargs kwargs ''sphere_center'' Sphere_sphere_center_set s1 = Inr s"
    by (auto simp: Sphere_init_def Let_def split: sum.splits)
  have "cache s1 = Map.empty"
    using 1 by (rule set_from_kwargs_cache) (simp_all add: setters_clear_cache)
  with 2 show ?thesis
    by (rule set_from_kwargs_cache) (simp add: setters_clear_cache)
qed

lemma Box_init_cache:
  assumes "Box_init ext b kwargs = Inr s"
  shows "cache s = Map.empty"
proof -
  from assms obtain s0 s1 s2 where
    1: "set_from_kwargs kwargs ''box_extents'' Box_box_extents_set (Primitive_init s0) = Inr s1"
    and 2: "set_from_kwargs kwargs ''box_transform'' Box_box_transform_set s1 = Inr s2"
    and 3: "set_from_kwargs kwargs ''box_center'' Box_box_center_set s2 = Inr s"
    by (auto simp: Box_init_def Let_def split: sum.splits)
  have "cache s1 = Map.empty"
    using 1 by (rule set_from_kwargs_cache) (simp_all add: setters_clear_cache)
  with 2 have "cache s2 = Map.empty"
    by (rule set_from_kwargs_cache) (simp add: setters_clear_cache)
  with 3 show ?thesis
    by (rule set_from_kwargs_cache) (simp add: setters_clear_cache)
qed

lemma sphere_formula:
  "Sphere_sphere_radius s = Inr (Py (F r)) \<Longrightarrow>
   Sphere_volume_body s = Inr (Py (F (4 / 3 * pi * r ^ 3)))"
  by (simp add: Sphere_volume_body_def np_map_def)

lemma sphere_radius_set_get:
  assumes "py_float x = Inr (Some r)"
  shows "Sphere_sphere_radius_set x s = Inr (data_setitem ''radius'' (Py (F r)) s)"
    and "Sphere_sphere_radius (data_setitem ''radius'' (Py (F r)) s) = Inr (Py (F r))"
  using assms
  by (simp_all add: Sphere_sphere_radius_set_def Sphere_sphere_radius_def DataStore_getitem_setitem)

text \<open>
  C6. The body of \<^verbatim>\<open>Sphere.volume\<close> computes \<open>4/3 \<pi> r\<^sup>3\<close> from the radius that the getter
  returns. The cached value is never stale: the slot is absent after construction and
  after every write to the store, a read of the volume fills it with what the body
  computes from the parameters and a second read returns the same, and the synthesis of
  the mesh leaves it valid. So after \<^verbatim>\<open>sphere_radius\<close> is set to \<open>r\<close>, the volume reads
  as \<open>4/3 \<pi> r\<^sup>3\<close>.
\<close>

theorem sphere_volume:
  "(Sphere_sphere_radius s = Inr (Py (F r)) \<longrightarrow>
      Sphere_volume_body s = Inr (Py (F (4 / 3 * pi * r ^ 3)))) \<and>
   (\<forall>v s'. volume_cache_valid Sphere_volume_body s \<and> Sphere_volume s = Inr (v, s') \<longrightarrow>
      Sphere_volume_body s = Inr v \<and> volume_cache_valid Sphere_volume_body s' \<and>
      data s' = data s \<and> Sphere_volume s' = Inr (v, s')) \<and>
   (py_float x = Inr (Some r) \<longrightarrow>
      (\<exists>s1 s2. Sphere_sphere_radius_set x s = Inr s1 \<and>
         Sphere_sphere_radius s1 = Inr (Py (F r)) \<and>
         Sphere_volume s1 = Inr (Py (F (4 / 3 * pi * r ^ 3)), s2))) \<and>
   volume_cache_valid Sphere_volume_body (data_setitem key x s) \<and>
   (\<forall>s0. Sphere_init ext base kwargs = Inr s0 \<longrightarrow> volume_cache_valid Sphere_volume_body s0) \<and>
   (\<forall>s'. volume_cache_valid Sphere_volume_body s \<and> create_mesh ext s = Inr s' \<longrightarrow>
      volume_cache_valid Sphere_volume_body s')"
proof -
  have frame: "Sphere_volume_body t = Sphere_volume_body s" if "data t = data s" for t
    using that by (rule Sphere_volume_body_frame)
  have frame_cache: "Sphere_volume_body (s\<lparr>cache := c\<rparr>) = Sphere_volume_body s" for c
    by (rule frame) simp
  have on_read: "Sphere_volume_body s = Inr v \<and> volume_cache_valid Sphere_volume_body s' \<and>
      data s' = data s \<and> Sphere_volume s' = Inr (v, s')"
    if "volume_cache_valid Sphere_volume_body s" and "Sphere_volume s = Inr (v, s')" for v s'
    using cache_decorator_read [of Sphere_volume_body s v s', OF that(1) _ frame_cache] that(2)
    by (simp add: Sphere_volume_def)
  have set_get: "\<exists>s1 s2. Sphere_sphere_radius_set x s = Inr s1 \<and>
         Sphere_sphere_radius s1 = Inr (Py (F r)) \<and>
         Sphere_volume s1 = Inr (Py (F (4 / 3 * pi * r ^ 3)), s2)"
    if "py_float x = Inr (Some r)"
    using sphere_radius_set_get [OF that, of s]
      sphere_formula [of "data_setitem ''radius'' (Py (F r)) s" r]
    by (simp add: Sphere_volume_def cache_decorator_def)
  have formula: "Sphere_volume_body s = Inr (Py (F (4 / 3 * pi * r ^ 3)))"
    if "Sphere_sphere_radius s = Inr (Py (F r))"
    using that by (rule sphere_formula)
  have init: "volume_cache_valid Sphere_volume_body s0" if "Sphere_init ext base kwargs = Inr s0" for s0
    using Sphere_init_cache [OF that] by (rule volume_valid_empty)
  have on_write: "volume_cache_valid Sphere_volume_body (data_setitem key x s)"
    by (simp add: volume_valid_empty)
  have synth: "volume_cache_valid Sphere_volume_body s'"
    if "volume_cache_valid Sphere_volume_body s" and "create_mesh ext s = Inr s'" for s'
    using create_mesh_keeps_volume [OF that(2,1) frame] .
  show ?thesis
    by (intro conjI allI impI; (elim conjE)?)
      (use formula on_read set_get on_write init synth in \<open>blast+\<close>)
qed

lemma example_sphere_mesh:
  "\<exists>s'. create_mesh example_ext
      (cache_setitem ''volume'' v
         (data_setitem ''radius'' (Py (F 2))
            (Primitive_init (blank Primitive [] \<lparr>kind := Sphere unit_box\<rparr>)))) = Inr s'"
  by (simp add: create_mesh_def Sphere_create_mesh_def Sphere_sphere_radius_def
      Sphere_sphere_center_def np_defs state_defs unit_box_def Let_def numeral_3_eq_3)

text \<open>
  A sphere constructed with radius 2: its volume, a second read, the synthesis of its
  mesh, and its volume after the radius is set to 3.
\<close>

theorem sphere_volume_witness:
  "\<exists>s0 s1 s2 s3 s4.
     Sphere_init example_ext (blank Primitive []) [(''sphere_radius'', Py (F 2))] = Inr s0 \<and>
     volume_cache_valid Sphere_volume_body s0 \<and>
     Sphere_sphere_radius s0 = Inr (Py (F 2)) \<and>
     Sphere_volume_body s0 = Inr (Py (F (4 / 3 * pi * 8))) \<and>
     Sphere_volume s0 = Inr (Py (F (4 / 3 * pi * 8)), s1) \<and>
     Sphere_volume s1 = Inr (Py (F (4 / 3 * pi * 8)), s1) \<and>
     create_mesh example_ext s1 = Inr s2 \<and>
     volume_cache_valid Sphere_volume_body s2 \<and>
     Sphere_sphere_radius_set (Py (F 3)) s2 = Inr s3 \<and>
     Sphere_volume s3 = Inr (Py (F (4 / 3 * pi * 27)), s4)"
proof -
  let ?b = "Primitive_init (blank Primitive [] \<lparr>kind := Sphere unit_box\<rparr>)"
  let ?kw = "[(''sphere_radius'', Py (F 2))]"
  let ?s0 = "data_setitem ''radius'' (Py (F 2)) ?b"
  have f: "py_float (Py (F 2)) = Inr (Some 2)" "py_float (Py (F 3)) = Inr (Some 3)" by simp_all
  have p: "(2::real) ^ 3 = 8" "(3::real) ^ 3 = 27" by simp_all
  have i: "Sphere_init example_ext (blank Primitive []) ?kw = Inr ?s0"
    by (simp add: Sphere_init_def set_from_kwargs_def Sphere_sphere_radius_set_def example_ext_def)
  have r0: "Sphere_sphere_radius ?s0 = Inr (Py (F 2))"
    by (simp add: Sphere_sphere_radius_def DataStore_getitem_setitem)
  note t0 = sphere_volume [of ?s0 2 "Py (F 2)" "''radius''" example_ext "blank Primitive []" ?kw]
  have valid0: "volume_cache_valid Sphere_volume_body ?s0"
    using t0 [THEN conjunct2, THEN conjunct2, THEN conjunct2, THEN conjunct2, THEN conjunct1,
      rule_format, OF i] .
  have body0: "Sphere_volume_body ?s0 = Inr (Py (F (4 / 3 * pi * 8)))"
    using t0 [THEN conjunct1, rule_format, OF r0] by (simp add: p)
  from sphere_volume [of ?b 2 "Py (F 2)", THEN conjunct2, THEN conjunct2, THEN conjunct1,
      rule_format, OF f(1)]
  obtain s1 where v0: "Sphere_volume ?s0 = Inr (Py (F (4 / 3 * pi * 8)), s1)"
    by (auto simp: Sphere_sphere_radius_set_def p)
  have s1: "s1 = cache_setitem ''volume'' (Py (F (4 / 3 * pi * 8))) ?s0"
    using v0 body0 by (simp add: Sphere_volume_def cache_decorator_def)
  from t0 [THEN conjunct2, THEN conjunct1, rule_format, OF conjI, OF valid0 v0]
  have valid1: "volume_cache_valid Sphere_volume_body s1"
    and again: "Sphere_volume s1 = Inr (Py (F (4 / 3 * pi * 8)), s1)"
    by simp_all
  from example_sphere_mesh [of "Py (F (4 / 3 * pi * 8))"]
  obtain s2 where m: "create_mesh example_ext s1 = Inr s2"
    unfolding s1 by blast
  have valid2: "volume_cache_valid Sphere_volume_body s2"
    using sphere_volume [of s1 _ _ _ example_ext, THEN conjunct2, THEN conjunct2, THEN conjunct2,
      THEN conjunct2, THEN conjunct2, rule_format, OF conjI, OF valid1 m] .
  from sphere_volume [of s2 3 "Py (F 3)", THEN conjunct2, THEN conjunct2, THEN conjunct1,
      rule_format, OF f(2)]
  obtain s3 s4 where s3: "Sphere_sphere_radius_set (Py (F 3)) s2 = Inr s3"
    and v3: "Sphere_volume s3 = Inr (Py (F (4 / 3 * pi * 27)), s4)"
    by (auto simp: p)
  show ?thesis
    using i valid0 r0 body0 v0 again m valid2 s3 v3 by blast
qed

lemma is_shape_3: "is_shape v [3] \<Longrightarrow> \<exists>x y z. v = Arr1 [x, y, z]"
  by (cases v) (auto simp: is_shape_def numeral_eq_Suc length_Suc_conv)

lemma box_extents_three: "\<exists>x y z. Box_box_extents s = Inr (Arr1 [x, y, z])"
  using is_shape_3 [of "DataStore_getitem (data s) ''box_extents''"]
  by (auto simp: Box_box_extents_def np_ones_3 Let_def)

lemma box_formula:
  "Box_box_extents s = Inr (Arr1 [F a, F b, F c]) \<Longrightarrow> Box_volume_body s = Inr (Py (F (a * b * c)))"
  by (simp add: Box_volume_body_def np_product_def)

lemma box_extents_set_get:
  assumes "asanyarray_float64 x = Inr (Arr1 [F a, F b, F c])"
  shows "Box_box_extents_set x s = Inr (data_setitem ''box_extents'' (Arr1 [F a, F b, F c]) s)"
    and "Box_box_extents (data_setitem ''box_extents'' (Arr1 [F a, F b, F c]) s) =
           Inr (Arr1 [F a, F b, F c])"
  using assms
  by (simp_all add: Box_box_extents_set_def Box_box_extents_def DataStore_getitem_setitem is_shape_def)

text \<open>
  C9. \<^verbatim>\<open>box_extents\<close> always reads as an array of three components, and the body of
  \<^verbatim>\<open>Box.volume\<close> computes their product. The cached value is never stale, as for the
  sphere. So after \<^verbatim>\<open>box_extents\<close> is set to \<open>(a, b, c)\<close> the volume reads as \<open>a b c\<close>, and
  a box constructed with extents \<open>(2, 3, 4)\<close> has volume 24.
\<close>

theorem box_volume:
  "(\<exists>x y z. Box_box_extents s = Inr (Arr1 [x, y, z])) \<and>
   (Box_box_extents s = Inr (Arr1 [F a, F b, F c]) \<longrightarrow>
      Box_volume_body s = Inr (Py (F (a * b * c)))) \<and>
   (\<forall>v s'. volume_cache_valid Box_volume_body s \<and> Box_volume s = Inr (v, s') \<longrightarrow>
      Box_volume_body s = Inr v \<and> volume_cache_valid Box_volume_body s' \<and>
      data s' = data s \<and> Box_volume s' = Inr (v, s')) \<and>
   (asanyarray_float64 x = Inr (Arr1 [F a, F b, F c]) \<longrightarrow>
      (\<exists>s1 s2. Box_box_extents_set x s = Inr s1 \<and>
         Box_box_extents s1 = Inr (Arr1 [F a, F b, F c]) \<and>
         Box_volume s1 = Inr (Py (F (a * b * c)), s2))) \<and>
   volume_cache_valid Box_volume_body (data_setitem key x s) \<and>
   (\<forall>s0. Box_init ext base kwargs = Inr s0 \<longrightarrow> volume_cache_valid Box_volume_body s0) \<and>
   (\<forall>s'. volume_cache_valid Box_volume_body s \<and> create_mesh ext s = Inr s' \<longrightarrow>
      volume_cache_valid Box_volume_body s')"
proof -
  have frame: "Box_volume_body t = Box_volume_body s" if "data t = data s" for t
    using that by (rule Box_volume_body_frame)
  have frame_cache: "Box_volume_body (s\<lparr>cache := c\<rparr>) = Box_volume_body s" for c
    by (rule frame) simp
  have on_read: "Box_volume_body s = Inr v \<and> volume_cache_valid Box_volume_body s' \<and>
      data s' = data s \<and> Box_volume s' = Inr (v, s')"
    if "volume_cache_valid Box_volume_body s" and "Box_volume s = Inr (v, s')" for v s'
    using cache_decorator_read [of Box_volume_body s v s', OF that(1) _ frame_cache] that(2)
    by (simp add: Box_volume_def)
  have set_get: "\<exists>s1 s2. Box_box_extents_set x s = Inr s1 \<and>
         Box_box_extents s1 = Inr (Arr1 [F a, F b, F c]) \<and>
         Box_volume s1 = Inr (Py (F (a * b * c)), s2)"
    if "asanyarray_float64 x = Inr (Arr1 [F a, F b, F c])"
    using box_extents_set_get [OF that, of s]
      box_formula [of "data_setitem ''box_extents'' (Arr1 [F a, F b, F c]) s" a b c]
    by (simp add: Box_volume_def cache_decorator_def)
  have formula: "Box_volume_body s = Inr (Py (F (a * b * c)))"
    if "Box_box_extents s = Inr (Arr1 [F a, F b, F c])"
    using that by (rule box_formula)
  have init: "volume_cache_valid Box_volume_body s0" if "Box_init ext base kwargs = Inr s0" for s0
    using Box_init_cache [OF that] by (rule volume_valid_empty)
  note three = box_extents_three [of s]
  have on_write: "volume_cache_valid Box_volume_body (data_setitem key x s)"
    by (simp add: volume_valid_empty)
  have synth: "volume_cache_valid Box_volume_body s'"
    if "volume_cache_valid Box_volume_body s" and "create_mesh ext s = Inr s'" for s'
    using create_mesh_keeps_volume [OF that(2,1) frame] .
  show ?thesis
    by (intro conjI allI impI; (elim conjE)?)
      (use formula on_read set_get on_write init synth three in \<open>blast+\<close>)
qed

lemma example_box_mesh:
  "\<exists>s'. create_mesh example_ext
      (cache_setitem ''volume'' v
         (data_setitem ''box_extents'' (Arr1 [F 2, F 3, F 4])
            (Primitive_init (blank Primitive [] \<lparr>kind := Box unit_box\<rparr>)))) = Inr s'"
  by (simp add: create_mesh_def Box_create_mesh_def Box_box_extents_def Box_box_transform_def
      np_defs state_defs example_defs Let_def upt_conv_Cons numeral_3_eq_3)

text \<open>
  A box constructed with extents \<open>(2, 3, 4)\<close>: its volume 24, a second read, the synthesis
  of its mesh, and its volume 10 after the extents are set to \<open>(1, 2, 5)\<close>.
\<close>

theorem box_volume_witness:
  "\<exists>s0 s1 s2 s3 s4.
     Box_init example_ext (blank Primitive []) [(''box_extents'', Arr1 [I 2, I 3, I 4])] = Inr s0 \<and>
     volume_cache_valid Box_volume_body s0 \<and>
     Box_box_extents s0 = Inr (Arr1 [F 2, F 3, F 4]) \<and>
     Box_volume_body s0 = Inr (Py (F 24)) \<and>
     Box_volume s0 = Inr (Py (F 24), s1) \<and>
     Box_volume s1 = Inr (Py (F 24), s1) \<and>
     create_mesh example_ext s1 = Inr s2 \<and>
     volume_cache_valid Box_volume_body s2 \<and>
     Box_box_extents_set (Arr1 [F 1, F 2, F 5]) s2 = Inr s3 \<and>
     Box_volume s3 = Inr (Py (F 10), s4)"
proof -
  let ?b = "Primitive_init (blank Primitive [] \<lparr>kind := Box unit_box\<rparr>)"
  let ?kw = "[(''box_extents'', Arr1 [I 2, I 3, I 4])]"
  let ?s0 = "data_setitem ''box_extents'' (Arr1 [F 2, F 3, F 4]) ?b"
  have f: "asanyarray_float64 (Arr1 [I 2, I 3, I 4]) = Inr (Arr1 [F 2, F 3, F 4])"
    "asanyarray_float64 (Arr1 [F 1, F 2, F 5]) = Inr (Arr1 [F 1, F 2, F 5])"
    by (simp_all add: asanyarray_float64_def as_float64_def)
  have i: "Box_init example_ext (blank Primitive []) ?kw = Inr ?s0"
    by (simp add: Box_init_def set_from_kwargs_def Box_box_extents_set_def f example_ext_def)
  have r0: "Box_box_extents ?s0 = Inr (Arr1 [F 2, F 3, F 4])"
    by (simp add: Box_box_extents_def DataStore_getitem_setitem is_shape_def)
  note t0 = box_volume [of ?s0 2 3 4 "Arr1 [I 2, I 3, I 4]" "''box_extents''" example_ext
      "blank Primitive []" ?kw]
  have valid0: "volume_cache_valid Box_volume_body ?s0"
    using t0 [THEN conjunct2, THEN conjunct2, THEN conjunct2, THEN conjunct2, THEN conjunct2,
      THEN conjunct1, rule_format, OF i] .
  have body0: "Box_volume_body ?s0 = Inr (Py (F 24))"
    using t0 [THEN conjunct2, THEN conjunct1, rule_format, OF r0] by simp
  from box_volume [of ?b 2 3 4 "Arr1 [I 2, I 3, I 4]", THEN conjunct2, THEN conjunct2,
      THEN conjunct2, THEN conjunct1, rule_format, OF f(1)]
  obtain s1 where v0: "Box_volume ?s0 = Inr (Py (F 24), s1)"
    by (auto simp: Box_box_extents_set_def f)
  have s1: "s1 = cache_setitem ''volume'' (Py (F 24)) ?s0"
    using v0 body0 by (simp add: Box_volume_def cache_decorator_def)
  from t0 [THEN conjunct2, THEN conjunct2, THEN conjunct1, rule_format, OF conjI, OF valid0 v0]
  have valid1: "volume_cache_valid Box_volume_body s1"
    and again: "Box_volume s1 = Inr (Py (F 24), s1)"
    by simp_all
  from example_box_mesh [of "Py (F 24)"]
  obtain s2 where m: "create_mesh example_ext s1 = Inr s2"
    unfolding s1 by blast
  have valid2: "volume_cache_valid Box_volume_body s2"
    using box_volume [of s1 _ _ _ _ _ example_ext, THEN conjunct2, THEN conjunct2, THEN conjunct2,
      THEN conjunct2, THEN conjunct2, THEN conjunct2, rule_format, OF conjI, OF valid1 m] .
  from box_volume [of s2 1 2 5 "Arr1 [F 1, F 2, F 5]", THEN conjunct2, THEN conjunct2,
      THEN conjunct2, THEN conjunct1, rule_format, OF f(2)]
  obtain s3 s4 where s3: "Box_box_extents_set (Arr1 [F 1, F 2, F 5]) s2 = Inr s3"
    and v3: "Box_volume s3 = Inr (Py (F 10), s4)"
    by auto
  show ?thesis
    using i valid0 r0 body0 v0 again m valid2 s3 v3 by blast
qed


end
